theory Spec2Isabelle
  imports Complex_Main
begin

section \<open>Text\<close>

text \<open>
  Python strings are sequences of code points. The model works on the code points below
  256 (Latin-1), one \<^typ>\<open>char\<close> each, which covers the Portuguese file names, headers
  and union names the program reads: code point 201 (\<open>CHR 0xC9\<close>) is the accented
  capital E of the vacation hint and 233 (\<open>CHR 0xE9\<close>) its small form. The functions
  below agree with Python's \<open>str.upper\<close>, \<open>str.lower\<close>, \<open>str.isspace\<close> and
  \<open>unicodedata\<close> on every such code point whose image stays below 256; the others
  (181 and 255 under \<open>upper\<close>; 181, 188, 189 and 190 under NFKD) are left unchanged
  by the model.
\<close>

definition upper_char :: "char \<Rightarrow> string" where
  "upper_char c =
     (let n = (of_char c :: int) in
      if n = 223 then ''SS''
      else if (97 \<le> n \<and> n \<le> 122) \<or> (224 \<le> n \<and> n \<le> 254 \<and> n \<noteq> 247)
        then [char_of (n - 32)]
      else [c])"

definition lower_char :: "char \<Rightarrow> char" where
  "lower_char c =
     (let n = (of_char c :: int) in
      if (65 \<le> n \<and> n \<le> 90) \<or> (192 \<le> n \<and> n \<le> 222 \<and> n \<noteq> 215)
        then char_of (n + 32)
      else c)"

text \<open>\<open>s.upper()\<close> and \<open>s.lower()\<close>.\<close>

definition upper :: "string \<Rightarrow> string" where
  "upper s = concat (map upper_char s)"

definition lower :: "string \<Rightarrow> string" where
  "lower s = map lower_char s"

text \<open>
  \<open>unicodedata.normalize("NFKD", s)\<close> followed by the removal of every combining
  mark, as one step per code point.
\<close>

definition strip_accent_char :: "char \<Rightarrow> string" where
  "strip_accent_char c =
     (let n = (of_char c :: int) in
      if n = 160 \<or> n = 168 \<or> n = 175 \<or> n = 180 \<or> n = 184 then '' ''
      else if n = 170 then ''a''
      else if n = 186 then ''o''
      else if n = 178 then ''2''
      else if n = 179 then ''3''
      else if n = 185 then ''1''
      else if 192 \<le> n \<and> n \<le> 197 then ''A''
      else if n = 199 then ''C''
      else if 200 \<le> n \<and> n \<le> 203 then ''E''
      else if 204 \<le> n \<and> n \<le> 207 then ''I''
      else if n = 209 then ''N''
      else if 210 \<le> n \<and> n \<le> 214 then ''O''
      else if 217 \<le> n \<and> n \<le> 220 then ''U''
      else if n = 221 then ''Y''
      else if 224 \<le> n \<and> n \<le> 229 then ''a''
      else if n = 231 then ''c''
      else if 232 \<le> n \<and> n \<le> 235 then ''e''
      else if 236 \<le> n \<and> n \<le> 239 then ''i''
      else if n = 241 then ''n''
      else if 242 \<le> n \<and> n \<le> 246 then ''o''
      else if 249 \<le> n \<and> n \<le> 252 then ''u''
      else if n = 253 \<or> n = 255 then ''y''
      else [c])"

definition strip_accents :: "string \<Rightarrow> string" where
  "strip_accents s = concat (map strip_accent_char s)"

text \<open>The code points for which \<open>str.isspace\<close> holds, which are also those \<open>\s\<close> matches.\<close>

definition is_space :: "char \<Rightarrow> bool" where
  "is_space c =
     (let n = (of_char c :: int) in
      (9 \<le> n \<and> n \<le> 13) \<or> (28 \<le> n \<and> n \<le> 32) \<or> n = 133 \<or> n = 160)"

text \<open>\<open>s.strip()\<close>.\<close>

definition strip :: "string \<Rightarrow> string" where
  "strip s = rev (dropWhile is_space (rev (dropWhile is_space s)))"

text \<open>\<open>re.sub(r"\s+", "_", s)\<close>: every maximal run of white space becomes one underscore.\<close>

function collapse_ws :: "string \<Rightarrow> string" where
  "collapse_ws [] = []"
| "collapse_ws (c # cs) =
     (if is_space c then CHR ''_'' # collapse_ws (dropWhile is_space cs)
      else c # collapse_ws cs)"
  by pat_completeness auto
termination
  by (relation "measure length") (auto simp: length_dropWhile_le le_imp_less_Suc)

text \<open>\<open>s.startswith(p)\<close>, \<open>s.endswith(p)\<close> and \<open>sub in s\<close>.\<close>

fun starts_with :: "string \<Rightarrow> string \<Rightarrow> bool" where
  "starts_with [] s = True"
| "starts_with (p # ps) [] = False"
| "starts_with (p # ps) (c # cs) = (p = c \<and> starts_with ps cs)"

definition ends_with :: "string \<Rightarrow> string \<Rightarrow> bool" where
  "ends_with p s = starts_with (rev p) (rev s)"

fun str_in :: "string \<Rightarrow> string \<Rightarrow> bool" where
  "str_in sub [] = (sub = [])"
| "str_in sub (c # cs) = (starts_with sub (c # cs) \<or> str_in sub cs)"

text \<open>\<open>sep.join(xs)\<close>.\<close>

fun join :: "string \<Rightarrow> string list \<Rightarrow> string" where
  "join sep [] = []"
| "join sep [x] = x"
| "join sep (x # y # ys) = x @ sep @ join sep (y # ys)"

subsection \<open>utils.py\<close>

text \<open>
  \<open>normalize_cols\<close>. Header cells are taken to be strings already, so the
  \<open>str(c)\<close> branch for other header values does not arise.
\<close>

definition normalize_col :: "string \<Rightarrow> string" where
  "normalize_col c = collapse_ws (strip (upper (strip_accents c)))"

definition normalize_cols :: "string list \<Rightarrow> string list" where
  "normalize_cols cs = map normalize_col cs"


section \<open>Tables\<close>

text \<open>
  A spreadsheet cell as pandas reads it: a number, a text, or nothing (\<open>NaN\<close>).
  Numbers are rationals: the program's floating-point arithmetic is modelled exactly,
  without rounding.
\<close>

datatype cell = Num rat | Str string | NaN

text \<open>
  A \<open>DataFrame\<close>: its column names in order, and its rows. A row gives each column
  name its cell; what it gives a name that is not a column is never read. Column names
  within one table are taken to be distinct.
\<close>

type_synonym row = "string \<Rightarrow> cell"

record table =
  columns :: "string list"
  rows :: "row list"

text \<open>\<open>pd.DataFrame()\<close> and \<open>df.empty\<close> (no row or no column).\<close>

definition empty_df :: table where
  "empty_df = \<lparr>columns = [], rows = []\<rparr>"

definition df_empty :: "table \<Rightarrow> bool" where
  "df_empty t = (columns t = [] \<or> rows t = [])"

text \<open>
  \<open>df[c] = values\<close>, the value of each row computed from that row: an existing
  column is overwritten where it stands, a new one is added last.
\<close>

definition set_col :: "string \<Rightarrow> (row \<Rightarrow> cell) \<Rightarrow> table \<Rightarrow> table" where
  "set_col c f t =
     \<lparr>columns = (if c \<in> set (columns t) then columns t else columns t @ [c]),
      rows = map (\<lambda>r. r(c := f r)) (rows t)\<rparr>"

text \<open>
  The exceptions the modelled code raises, each with its message or key. \<open>ReadError\<close>
  stands for whatever pandas raises on a path that holds no readable workbook.
\<close>

datatype error =
    FileNotFoundError string
  | KeyError string
  | TypeError
  | ValueError
  | IndexError
  | AttributeError string
  | ReadError string

text \<open>
  A Python \<open>dict\<close> with string keys: the entries in insertion order. Assigning to a
  key that is present keeps its place.
\<close>

type_synonym 'v dict = "(string \<times> 'v) list"

fun dict_set :: "string \<Rightarrow> 'v \<Rightarrow> 'v dict \<Rightarrow> 'v dict" where
  "dict_set k v [] = [(k, v)]"
| "dict_set k v ((k', v') # d) =
     (if k' = k then (k, v) # d else (k', v') # dict_set k v d)"

text \<open>\<open>d.get(k, default)\<close>.\<close>

definition dict_get :: "'v dict \<Rightarrow> string \<Rightarrow> 'v \<Rightarrow> 'v" where
  "dict_get d k dflt = (case map_of d k of Some v \<Rightarrow> v | None \<Rightarrow> dflt)"

subsection \<open>utils.py, continued\<close>

text \<open>
  \<open>strip_accents_upper\<close>. A value that is not a string is returned as \<open>str(s)\<close>,
  unchanged otherwise: \<open>'nan'\<close> for a missing cell, and for a number the text
  \<open>num_str\<close> gives, Python's number formatting being a parameter of the model.
\<close>

definition strip_accents_upper_str :: "string \<Rightarrow> string" where
  "strip_accents_upper_str s = strip (upper (strip_accents s))"

definition strip_accents_upper :: "(rat \<Rightarrow> string) \<Rightarrow> cell \<Rightarrow> string" where
  "strip_accents_upper num_str s =
     (case s of
        Str x \<Rightarrow> strip_accents_upper_str x
      | Num q \<Rightarrow> num_str q
      | NaN \<Rightarrow> ''nan'')"

definition ufs :: "string list" where
  "ufs = [''SP'', ''RJ'', ''MG'', ''RS'', ''PR'', ''SC'', ''BA'', ''PE'',
          ''GO'', ''DF'', ''ES'', ''MT'', ''MS'', ''PA'', ''AM'', ''CE'']"

text \<open>The \<open>for uf in [...]\<close> loop of \<open>infer_estado_from_sindicato\<close>.\<close>

fun first_uf :: "string list \<Rightarrow> string \<Rightarrow> string" where
  "first_uf [] s = ''?''"
| "first_uf (uf # rest) s = (if str_in uf s then uf else first_uf rest s)"

definition infer_estado_from_sindicato :: "cell \<Rightarrow> string" where
  "infer_estado_from_sindicato sindicato =
     (case sindicato of
        Str x \<Rightarrow> first_uf ufs (strip_accents_upper_str x)
      | _ \<Rightarrow> ''?'')"

section \<open>steps.py: the eligibility builder\<close>

text \<open>A \<open>pd.Timestamp\<close> at midnight: year, month, day.\<close>

type_synonym timestamp = "int \<times> int \<times> int"

record contexto =
  periodo_ini :: timestamp
  periodo_fim :: timestamp
  competencia :: timestamp
  pos15_regra :: string

text \<open>
  \<open># remove desligados\<close>. \<open>desligados["MATRICULA"]\<close> raises \<open>KeyError\<close> when the
  terminated table has no such column. \<open>isin\<close> compares cells for equality.
\<close>

definition remove_desligados :: "table \<Rightarrow> table \<Rightarrow> error + table" where
  "remove_desligados ativos desligados =
     (if \<not> df_empty desligados \<and> ''MATRICULA'' \<in> set (columns ativos) then
        (if ''MATRICULA'' \<in> set (columns desligados) then
           Inr (ativos\<lparr>rows :=
                  filter (\<lambda>a. a ''MATRICULA'' \<notin> set (map (\<lambda>d. d ''MATRICULA'') (rows desligados)))
                    (rows ativos)\<rparr>)
         else Inl (KeyError ''MATRICULA''))
      else Inr ativos)"

text \<open>
  \<open>ativos.merge(ferias[["MATRICULA", "DIAS_DE_FERIAS"]], on="MATRICULA", how="left")\<close>:
  every left row in order, once for each right row with the same key in the right
  table's order, or once with an empty cell when there is none. Keys are compared as
  cells; a key column of numbers is not joined with one of texts, which pandas refuses.
\<close>

definition merge_left_row :: "row list \<Rightarrow> row \<Rightarrow> row list" where
  "merge_left_row fs a =
     (case filter (\<lambda>f. f ''MATRICULA'' = a ''MATRICULA'') fs of
        [] \<Rightarrow> [a(''DIAS_DE_FERIAS'' := NaN)]
      | ms \<Rightarrow> map (\<lambda>f. a(''DIAS_DE_FERIAS'' := f ''DIAS_DE_FERIAS'')) ms)"

definition merge_left :: "table \<Rightarrow> table \<Rightarrow> table" where
  "merge_left ativos ferias =
     \<lparr>columns = columns ativos @ [''DIAS_DE_FERIAS''],
      rows = concat (map (merge_left_row (rows ferias)) (rows ativos))\<rparr>"

text \<open>\<open>22 - x\<close> after \<open>fillna(0)\<close>, on one cell; a text cell makes the subtraction raise.\<close>

fun dias_of :: "cell \<Rightarrow> cell option" where
  "dias_of (Num k) = Some (Num (22 - k))"
| "dias_of NaN = Some (Num 22)"
| "dias_of (Str s) = None"

text \<open>
  \<open># ajusta dias de VR\<close>. Selecting the two columns raises \<open>KeyError\<close> when the
  vacation table has no \<open>MATRICULA\<close>. When the active table has a column
  \<open>DIAS_DE_FERIAS\<close> of its own, the merge renames both with a suffix and
  \<open>ativos["DIAS_DE_FERIAS"]\<close> raises \<open>KeyError\<close>.
\<close>

definition ajusta_dias :: "table \<Rightarrow> table \<Rightarrow> error + table" where
  "ajusta_dias ativos ferias =
     (if \<not> df_empty ferias \<and> ''MATRICULA'' \<in> set (columns ativos)
          \<and> ''DIAS_DE_FERIAS'' \<in> set (columns ferias) then
        (if ''MATRICULA'' \<notin> set (columns ferias) then Inl (KeyError ''MATRICULA'')
         else if ''DIAS_DE_FERIAS'' \<in> set (columns ativos) then Inl (KeyError ''DIAS_DE_FERIAS'')
         else
           (let m = merge_left ativos ferias in
            if \<exists>r \<in> set (rows m). dias_of (r ''DIAS_DE_FERIAS'') = None then Inl TypeError
            else Inr (set_col ''DIAS'' (\<lambda>r. the (dias_of (r ''DIAS_DE_FERIAS''))) m)))
      else Inr (set_col ''DIAS'' (\<lambda>r. Num 22) ativos))"

text \<open>
  \<open># valor diario e total\<close>. The product of two numeric columns; \<open>DIAS\<close> is a
  number on every row at this point.
\<close>

definition cell_times :: "cell \<Rightarrow> cell \<Rightarrow> cell" where
  "cell_times x y = (case (x, y) of (Num a, Num b) \<Rightarrow> Num (a * b) | _ \<Rightarrow> NaN)"

definition valor_e_total :: "table \<Rightarrow> table" where
  "valor_e_total t =
     set_col ''TOTAL'' (\<lambda>r. cell_times (r ''DIAS'') (r ''VALOR_DIARIO_VR''))
       (set_col ''VALOR_DIARIO_VR'' (\<lambda>r. Num 30) t)"

text \<open>\<open># sindicato e estado\<close>.\<close>

definition sindicato_e_estado :: "(rat \<Rightarrow> string) \<Rightarrow> table \<Rightarrow> table" where
  "sindicato_e_estado num_str t =
     (if ''SINDICATO'' \<in> set (columns t) then
        set_col ''ESTADO'' (\<lambda>r. Str (infer_estado_from_sindicato (r ''SINDICATO'')))
          (set_col ''SINDICATO'' (\<lambda>r. Str (strip_accents_upper num_str (r ''SINDICATO''))) t)
      else t)"

definition montar_base_elegiveis ::
  "(rat \<Rightarrow> string) \<Rightarrow> table dict \<Rightarrow> contexto \<Rightarrow> error + table" where
  "montar_base_elegiveis num_str bases ctx =
     (let ativos = dict_get bases ''ATIVOS'' empty_df;
          ferias = dict_get bases ''FERIAS'' empty_df;
          desligados = dict_get bases ''DESLIGADOS'' empty_df
      in case remove_desligados ativos desligados of
           Inl e \<Rightarrow> Inl e
         | Inr ativos1 \<Rightarrow>
             (case ajusta_dias ativos1 ferias of
                Inl e \<Rightarrow> Inl e
              | Inr ativos2 \<Rightarrow> Inr (sindicato_e_estado num_str (valor_e_total ativos2))))"

section \<open>Files\<close>

text \<open>
  A workbook is its sheets in order, each a name and a table. Reading a sheet gives the
  table that was written: the conversions of the spreadsheet format are not modelled.

  The file system gives each directory the names it holds, in the order the operating
  system lists them, and each path of a readable workbook its content. Paths follow
  POSIX. Writing a workbook changes \<open>files\<close> only.
\<close>

type_synonym workbook = "(string \<times> table) list"

record fs =
  dirs :: "string \<Rightarrow> string list option"
  files :: "string \<Rightarrow> workbook option"

text \<open>\<open>os.path.join(a, b)\<close> for a name \<open>b\<close>, and \<open>os.path.basename\<close>.\<close>

definition path_join :: "string \<Rightarrow> string \<Rightarrow> string" where
  "path_join a b =
     (if a = [] then b else if last a = CHR ''/'' then a @ b else a @ ''/'' @ b)"

definition basename :: "string \<Rightarrow> string" where
  "basename p = rev (takeWhile (\<lambda>c. c \<noteq> CHR ''/'') (rev p))"

text \<open>
  \<open>os.path.isdir\<close> and \<open>os.listdir\<close>: the empty path is no directory.
\<close>

definition listdir :: "fs \<Rightarrow> string \<Rightarrow> string list option" where
  "listdir f d = (if d = [] then None else dirs f d)"

text \<open>
  \<open>glob.glob(os.path.join(input_dir, "*.xlsx"))\<close>: the names of the directory that end
  in \<open>.xlsx\<close> and do not start with a dot, each joined to the directory; nothing when
  the directory does not exist. With the empty path the pattern is \<open>*.xlsx\<close> alone,
  which lists the working directory \<open>.\<close>. The directory's own name is taken to hold
  no wildcard.
\<close>

definition glob_xlsx :: "fs \<Rightarrow> string \<Rightarrow> string list" where
  "glob_xlsx f input_dir =
     (case dirs f (if input_dir = [] then ''.'' else input_dir) of
        None \<Rightarrow> []
      | Some names \<Rightarrow>
          map (path_join input_dir)
            (filter (\<lambda>n. ends_with ''.xlsx'' n \<and> \<not> starts_with ''.'' n) names))"

text \<open>
  \<open>pd.read_excel(path)\<close>: the first sheet. A path that holds no readable workbook makes
  pandas raise.
\<close>

definition read_excel :: "fs \<Rightarrow> string \<Rightarrow> error + table" where
  "read_excel f path =
     (case files f path of
        None \<Rightarrow> Inl (ReadError path)
      | Some [] \<Rightarrow> Inl (ReadError path)
      | Some ((name, t) # rest) \<Rightarrow> Inr t)"

text \<open>
  \<open>df.columns = names\<close>: the cells stay where they are, under the new names in the
  same order. Where two columns get the same name, the model reads the first under it.
\<close>

definition set_columns :: "string list \<Rightarrow> table \<Rightarrow> table" where
  "set_columns names t =
     \<lparr>columns = names,
      rows = map (\<lambda>r c. case map_of (zip names (columns t)) c of
                            Some old \<Rightarrow> r old | None \<Rightarrow> NaN) (rows t)\<rparr>"

section \<open>steps.py: ingestion\<close>

text \<open>
  The \<open>if\<close>/\<open>elif\<close> chain of \<open>carregar_bases\<close> on the upper-case file name: the key
  the file's table is stored under, if any. \<open>CHR 0xC9\<close> is the accented E.
\<close>

definition papel :: "string \<Rightarrow> string option" where
  "papel nome =
     (if str_in ''ATIVOS'' nome then Some ''ATIVOS''
      else if str_in ''FERIAS'' nome \<or> str_in (''F'' @ [CHR 0xC9] @ ''RIAS'') nome then Some ''FERIAS''
      else if str_in ''DESLIGADOS'' nome then Some ''DESLIGADOS''
      else None)"

text \<open>The \<open>for path in glob.glob(...)\<close> loop, \<open>bases\<close> being the dictionary so far.\<close>

fun carregar_loop :: "fs \<Rightarrow> string list \<Rightarrow> table dict \<Rightarrow> error + table dict" where
  "carregar_loop f [] bases = Inr bases"
| "carregar_loop f (path # paths) bases =
     (let nome = upper (basename path) in
      case read_excel f path of
        Inl e \<Rightarrow> Inl e
      | Inr df0 \<Rightarrow>
          (let df = set_columns (normalize_cols (columns df0)) df0 in
           carregar_loop f paths
             (case papel nome of Some k \<Rightarrow> dict_set k df bases | None \<Rightarrow> bases)))"

definition carregar_bases :: "fs \<Rightarrow> string \<Rightarrow> error + table dict" where
  "carregar_bases f input_dir = carregar_loop f (glob_xlsx f input_dir) []"

section \<open>agent\_vr.py: the input pre-check\<close>

text \<open>\<open>REQUIRED_FILES_HINTS.values()\<close>, in the dictionary's order.\<close>

definition required_files_hints :: "string list" where
  "required_files_hints = [''ATIVOS'', ''DESLIGADOS'', ''F'' @ [CHR 0xC9] @ ''RIAS'']"

definition msg_pasta :: "string \<Rightarrow> string" where
  "msg_pasta input_dir = ''Pasta n'' @ [CHR 0xE3] @ ''o encontrada: '' @ input_dir"

definition msg_hint :: "string \<Rightarrow> string \<Rightarrow> string" where
  "msg_hint hint input_dir =
     ''Precisa existir um .xlsx que contenha '' @ [CHR 0x27] @ hint @ [CHR 0x27]
       @ '' dentro de '' @ input_dir"

text \<open>The \<open>for hint in ...\<close> loop of \<open>_validate_input_dir\<close>.\<close>

fun check_hints :: "string list \<Rightarrow> string list \<Rightarrow> string \<Rightarrow> error + unit" where
  "check_hints [] fls input_dir = Inr ()"
| "check_hints (hint # hints) fls input_dir =
     (if \<not> list_ex (\<lambda>f. str_in (lower hint) f) fls
      then Inl (FileNotFoundError (msg_hint hint input_dir))
      else check_hints hints fls input_dir)"

definition validate_input_dir :: "fs \<Rightarrow> string \<Rightarrow> error + unit" where
  "validate_input_dir f input_dir =
     (case listdir f input_dir of
        None \<Rightarrow> Inl (FileNotFoundError (msg_pasta input_dir))
      | Some names \<Rightarrow>
          check_hints required_files_hints
            (map lower (filter (\<lambda>n. ends_with ''.xlsx'' (lower n)) names)) input_dir)"

section \<open>steps.py: the exporter\<close>

text \<open>
  \<open>pd.to_numeric(x, errors="coerce")\<close> followed by \<open>fillna(0)\<close>, on one cell. How
  pandas reads a number out of a text is a parameter, \<open>pn\<close>: \<open>None\<close> where it reads
  none.
\<close>

definition num0 :: "(string \<Rightarrow> rat option) \<Rightarrow> cell \<Rightarrow> rat" where
  "num0 pn c =
     (case c of
        Num q \<Rightarrow> q
      | Str s \<Rightarrow> (case pn s of Some q \<Rightarrow> q | None \<Rightarrow> 0)
      | NaN \<Rightarrow> 0)"

definition cost_cols :: "string list" where
  "cost_cols = [''TOTAL'', ''Custo empresa'', ''Desconto profissional'']"

definition check_cols :: "string list" where
  "check_cols = [''DIAS'', ''TOTAL'', ''Custo empresa'', ''Desconto profissional'']"

text \<open>\<open>CHR 0xE7\<close> and \<open>CHR 0xF5\<close> are the c with cedilla and the o with tilde.\<close>

definition validacoes_name :: string where
  "validacoes_name = ''Valida'' @ [CHR 0xE7, CHR 0xF5] @ ''es''"

text \<open>
  \<open>(df[col] < 0).any()\<close> on the cells as they are: comparing a text with a number
  raises.
\<close>

definition is_str :: "cell \<Rightarrow> bool" where
  "is_str c = (case c of Str s \<Rightarrow> True | _ \<Rightarrow> False)"

definition cell_neg :: "cell \<Rightarrow> bool" where
  "cell_neg c = (case c of Num q \<Rightarrow> q < 0 | _ \<Rightarrow> False)"

fun negativos_raw :: "string list \<Rightarrow> table \<Rightarrow> error + string list" where
  "negativos_raw [] df = Inr []"
| "negativos_raw (col # cols) df =
     (if col \<in> set (columns df) then
        (if list_ex (\<lambda>r. is_str (r col)) (rows df) then Inl TypeError
         else (case negativos_raw cols df of
                 Inl e \<Rightarrow> Inl e
               | Inr ns \<Rightarrow> Inr (if list_ex (\<lambda>r. cell_neg (r col)) (rows df) then col # ns else ns)))
      else negativos_raw cols df)"

definition check_row :: "string \<Rightarrow> string \<Rightarrow> row" where
  "check_row check detalhe =
     (\<lambda>c. if c = ''Check'' then Str check else if c = ''Detalhe'' then Str detalhe else NaN)"

definition gerar_validacoes :: "(string \<Rightarrow> rat option) \<Rightarrow> table \<Rightarrow> error + table" where
  "gerar_validacoes pn df =
     (let regra =
        (if list_all (\<lambda>c. c \<in> set (columns df)) cost_cols then
           (let ce_ok = list_all (\<lambda>r. \<bar>num0 pn (r ''Custo empresa'') - num0 pn (r ''TOTAL'') * (4/5)\<bar> < 1/100) (rows df);
                dp_ok = list_all (\<lambda>r. \<bar>num0 pn (r ''Desconto profissional'') - num0 pn (r ''TOTAL'') * (1/5)\<bar> < 1/100) (rows df)
            in [check_row ''Regra 80/20'' (if ce_ok \<and> dp_ok then ''OK'' else ''Falha'')])
         else [])
      in case negativos_raw check_cols df of
           Inl e \<Rightarrow> Inl e
         | Inr ns \<Rightarrow>
             Inr \<lparr>columns = [''Check'', ''Detalhe''],
                  rows = regra @ [check_row ''Valores negativos''
                                    (if ns = [] then ''Nenhum'' else join '', '' ns)]\<rparr>)"

text \<open>
  Writing a sheet into a workbook: a sheet of that name is replaced where it stands, a
  new one is added last. This is \<open>to_excel\<close> under \<open>if_sheet_exists="replace"\<close>, and
  also \<open>to_excel\<close> into a new workbook as long as the names differ.
\<close>

fun write_sheet :: "string \<Rightarrow> table \<Rightarrow> workbook \<Rightarrow> workbook" where
  "write_sheet name t [] = [(name, t)]"
| "write_sheet name t ((n, u) # wb) =
     (if n = name then (name, t) # wb else (n, u) # write_sheet name t wb)"

definition exportar_planilha ::
  "(string \<Rightarrow> rat option) \<Rightarrow> fs \<Rightarrow> table \<Rightarrow> table dict \<Rightarrow> contexto \<Rightarrow> string \<Rightarrow> error + fs" where
  "exportar_planilha pn f base bases ctx out_path =
     (case gerar_validacoes pn base of
        Inl e \<Rightarrow> Inl e
      | Inr validacoes \<Rightarrow>
          Inr (f\<lparr>files := (files f)(out_path \<mapsto>
                 write_sheet validacoes_name validacoes
                   (foldl (\<lambda>wb (k, df). write_sheet k df wb) [(''VR Mensal'', base)] bases))\<rparr>))"

section \<open>agent\_vr.py: generating the workbook\<close>

text \<open>
  \<open>_aplicar_80_20_no_arquivo\<close>: the first sheet is read, the two cost columns are set
  from \<open>TOTAL\<close> when it has that column, and the sheet is written back in its place.
\<close>

definition aplicar_80_20 :: "(string \<Rightarrow> rat option) \<Rightarrow> table \<Rightarrow> table" where
  "aplicar_80_20 pn df =
     (if ''TOTAL'' \<in> set (columns df) then
        set_col ''Desconto profissional'' (\<lambda>r. Num (num0 pn (r ''TOTAL'') * (1/5)))
          (set_col ''Custo empresa'' (\<lambda>r. Num (num0 pn (r ''TOTAL'') * (4/5))) df)
      else df)"

definition aplicar_80_20_wb :: "(string \<Rightarrow> rat option) \<Rightarrow> workbook \<Rightarrow> error + workbook" where
  "aplicar_80_20_wb pn wb =
     (case wb of
        [] \<Rightarrow> Inl IndexError
      | (aba, df) # rest \<Rightarrow> Inr (write_sheet aba (aplicar_80_20 pn df) wb))"

definition aplicar_80_20_no_arquivo :: "(string \<Rightarrow> rat option) \<Rightarrow> fs \<Rightarrow> string \<Rightarrow> error + fs" where
  "aplicar_80_20_no_arquivo pn f xlsx_path =
     (case files f xlsx_path of
        None \<Rightarrow> Inl (FileNotFoundError xlsx_path)
      | Some wb \<Rightarrow>
          (case aplicar_80_20_wb pn wb of
             Inl e \<Rightarrow> Inl e
           | Inr wb1 \<Rightarrow> Inr (f\<lparr>files := (files f)(xlsx_path \<mapsto> wb1)\<rparr>)))"

text \<open>
  The first day of a month as a \<open>pd.Timestamp\<close>, which pandas builds only from October
  1677 to April 2262, and the last day of a month.
\<close>

definition first_of_month :: "int \<Rightarrow> int \<Rightarrow> error + timestamp" where
  "first_of_month y m =
     (if 1677 * 12 + 10 \<le> y * 12 + m \<and> y * 12 + m \<le> 2262 * 12 + 4 then Inr (y, m, 1)
      else Inl ValueError)"

definition leap_year :: "int \<Rightarrow> bool" where
  "leap_year y = (y mod 4 = 0 \<and> (y mod 100 \<noteq> 0 \<or> y mod 400 = 0))"

definition last_day :: "int \<Rightarrow> int \<Rightarrow> int" where
  "last_day y m =
     (if m = 2 then (if leap_year y then 29 else 28)
      else if m = 4 \<or> m = 6 \<or> m = 9 \<or> m = 11 then 30 else 31)"

text \<open>
  \<open>_make_contexto\<close> and \<open>_ctx_fallback_for\<close> build the same three dates; the second
  runs when the first raises, and then raises in its turn.
\<close>

definition make_contexto :: "int \<Rightarrow> int \<Rightarrow> string \<Rightarrow> error + contexto" where
  "make_contexto ano mes regra =
     (case first_of_month ano mes of
        Inl e \<Rightarrow> Inl e
      | Inr ini \<Rightarrow>
          (case (if mes = 12 then first_of_month (ano + 1) 1 else first_of_month ano (mes + 1)) of
             Inl e \<Rightarrow> Inl e
           | Inr nxt \<Rightarrow>
               Inr \<lparr>periodo_ini = ini, periodo_fim = (ano, mes, last_day ano mes),
                    competencia = ini, pos15_regra = regra\<rparr>))"

text \<open>Decimal digits of a natural number, and the \<open>{mes:02d}\<close> format.\<close>

function show_nat :: "nat \<Rightarrow> string" where
  "show_nat n =
     (if n < 10 then [char_of (48 + int n)]
      else show_nat (n div 10) @ [char_of (48 + int (n mod 10))])"
  by pat_completeness auto
termination
  by (relation "measure id") auto

definition fmt_02d :: "int \<Rightarrow> string" where
  "fmt_02d m = (if m < 10 then ''0'' @ show_nat (nat m) else show_nat (nat m))"

definition default_out :: "int \<Rightarrow> int \<Rightarrow> string" where
  "default_out mes ano = ''VR_MENSAL_'' @ fmt_02d mes @ ''_'' @ show_nat (nat ano) @ ''.xlsx''"

text \<open>The \<open>try\<close>/\<open>except AttributeError\<close> around a pipeline call that takes the context.\<close>

definition retry_dict :: "(contexto \<Rightarrow> error + 'a) \<Rightarrow> contexto \<Rightarrow> contexto \<Rightarrow> error + 'a" where
  "retry_dict call ctx fallback =
     (case call ctx of
        Inl (AttributeError m) \<Rightarrow>
          (if str_in ''dict'' (lower m) then call fallback else Inl (AttributeError m))
      | r \<Rightarrow> r)"

text \<open>
  \<open>gerar_vr_mensal_tool\<close>, up to the file it leaves: the result is the file system and
  the output path. The metrics read back from the file and the JSON text around them
  are not modelled. \<open>date(ano, mes, 1)\<close> raises outside the calendar.
\<close>

definition gerar_vr_mensal_tool ::
  "(string \<Rightarrow> rat option) \<Rightarrow> (rat \<Rightarrow> string) \<Rightarrow> fs \<Rightarrow> string \<Rightarrow> int \<Rightarrow> int \<Rightarrow> string
     \<Rightarrow> string option \<Rightarrow> error + fs \<times> string" where
  "gerar_vr_mensal_tool pn num_str f input_dir mes ano regra nome_saida =
     (case validate_input_dir f input_dir of
        Inl e \<Rightarrow> Inl e
      | Inr u \<Rightarrow>
          (if \<not> (1 \<le> mes \<and> mes \<le> 12 \<and> 1 \<le> ano \<and> ano \<le> 9999) then Inl ValueError
           else
             (case make_contexto ano mes regra of
                Inl e \<Rightarrow> Inl e
              | Inr ctx \<Rightarrow>
                  (let out = (case nome_saida of
                                None \<Rightarrow> default_out mes ano
                              | Some s \<Rightarrow> if s = [] then default_out mes ano else s)
                   in case carregar_bases f input_dir of
                        Inl e \<Rightarrow> Inl e
                      | Inr bases \<Rightarrow>
                          (case retry_dict (montar_base_elegiveis num_str bases) ctx ctx of
                             Inl e \<Rightarrow> Inl e
                           | Inr base \<Rightarrow>
                               (case retry_dict (\<lambda>c. exportar_planilha pn f base bases c out) ctx ctx of
                                  Inl e \<Rightarrow> Inl e
                                | Inr f1 \<Rightarrow>
                                    (case aplicar_80_20_no_arquivo pn f1 out of
                                       Inl e \<Rightarrow> Inl e
                                     | Inr f2 \<Rightarrow> Inr (f2, out))))))))"

section \<open>agent\_vr.py: the validator\<close>

text \<open>
  \<open>next((s for s in sheet_names if "vr mensal" in s.lower()), sheet_names[0])\<close>, with
  the sheet it names; \<open>sheet_names[0]\<close> raises on a workbook without sheets.
\<close>

definition pick_sheet :: "workbook \<Rightarrow> error + string \<times> table" where
  "pick_sheet wb =
     (case wb of
        [] \<Rightarrow> Inl IndexError
      | first # rest \<Rightarrow>
          (case find (\<lambda>(s, t). str_in ''vr mensal'' (lower s)) wb of
             Some st \<Rightarrow> Inr st
           | None \<Rightarrow> Inr first))"

text \<open>\<open>pd.read_excel(x, sheet_name=aba)\<close>.\<close>

definition read_sheet :: "workbook \<Rightarrow> string \<Rightarrow> error + table" where
  "read_sheet wb aba = (case map_of wb aba of Some t \<Rightarrow> Inr t | None \<Rightarrow> Inl ValueError)"

datatype issue = Por_linha bool bool | Agregado bool bool

text \<open>
  The two cost-split checks, on the sheet as it stands after the reinforcement; \<open>soma\<close>
  is the sum of a column read as numbers.
\<close>

definition soma :: "(string \<Rightarrow> rat option) \<Rightarrow> string \<Rightarrow> table \<Rightarrow> rat" where
  "soma pn c df = sum_list (map (\<lambda>r. num0 pn (r c)) (rows df))"

definition issues_of :: "(string \<Rightarrow> rat option) \<Rightarrow> rat \<Rightarrow> table \<Rightarrow> issue list" where
  "issues_of pn tolerancia df =
     (if list_all (\<lambda>c. c \<in> set (columns df)) cost_cols then
        (let ce_ok = list_all (\<lambda>r. \<bar>num0 pn (r ''Custo empresa'') - num0 pn (r ''TOTAL'') * (4/5)\<bar> \<le> tolerancia) (rows df);
             dp_ok = list_all (\<lambda>r. \<bar>num0 pn (r ''Desconto profissional'') - num0 pn (r ''TOTAL'') * (1/5)\<bar> \<le> tolerancia) (rows df);
             total_sum = max 1 (soma pn ''TOTAL'' df);
             ce_sum_ok = (\<bar>soma pn ''Custo empresa'' df - total_sum * (4/5)\<bar> \<le> tolerancia * total_sum);
             dp_sum_ok = (\<bar>soma pn ''Desconto profissional'' df - total_sum * (1/5)\<bar> \<le> tolerancia * total_sum)
         in (if \<not> ce_ok \<or> \<not> dp_ok then [Por_linha ce_ok dp_ok] else [])
            @ (if \<not> ce_sum_ok \<or> \<not> dp_sum_ok then [Agregado ce_sum_ok dp_sum_ok] else []))
      else [])"

text \<open>The negative-value scan, on the cells read as numbers.\<close>

definition negativos_of :: "(string \<Rightarrow> rat option) \<Rightarrow> table \<Rightarrow> string list" where
  "negativos_of pn df =
     filter (\<lambda>c. c \<in> set (columns df) \<and> list_ex (\<lambda>r. num0 pn (r c) < 0) (rows df)) check_cols"

text \<open>\<open>str(issues_80_20)\<close>: Python's text of a list of dictionaries.\<close>

definition repr_bool :: "bool \<Rightarrow> string" where
  "repr_bool b = (if b then ''True'' else ''False'')"

definition repr_issue :: "issue \<Rightarrow> string" where
  "repr_issue i =
     (case i of
        Por_linha ce dp \<Rightarrow>
          ''{'' @ [CHR 0x27] @ ''msg'' @ [CHR 0x27] @ '': '' @ [CHR 0x27] @ ''Falha 80/20 por linha'' @ [CHR 0x27]
            @ '', '' @ [CHR 0x27] @ ''ce_ok'' @ [CHR 0x27] @ '': '' @ repr_bool ce
            @ '', '' @ [CHR 0x27] @ ''dp_ok'' @ [CHR 0x27] @ '': '' @ repr_bool dp @ ''}''
      | Agregado ce dp \<Rightarrow>
          ''{'' @ [CHR 0x27] @ ''msg'' @ [CHR 0x27] @ '': '' @ [CHR 0x27] @ ''Falha 80/20 agregado'' @ [CHR 0x27]
            @ '', '' @ [CHR 0x27] @ ''ce_sum_ok'' @ [CHR 0x27] @ '': '' @ repr_bool ce
            @ '', '' @ [CHR 0x27] @ ''dp_sum_ok'' @ [CHR 0x27] @ '': '' @ repr_bool dp @ ''}'')"

definition repr_issues :: "issue list \<Rightarrow> string" where
  "repr_issues is = ''['' @ join '', '' (map repr_issue is) @ '']''"

text \<open>\<open>", ".join(map(str, xs)) or "-"\<close>.\<close>

definition join_or_dash :: "string list \<Rightarrow> string" where
  "join_or_dash xs = (if join '', '' xs = [] then ''-'' else join '', '' xs)"

record report =
  arquivo :: string
  aba_modelo :: string
  faltantes :: "string list"
  extras :: "string list"
  issues_80_20 :: "issue list"
  negativos :: "string list"

definition resumo :: "report \<Rightarrow> bool \<Rightarrow> table" where
  "resumo rep tem_val_ref =
     \<lparr>columns = [''Check'', ''Detalhe''],
      rows =
        [check_row ''Colunas faltantes'' (join_or_dash (faltantes rep)),
         check_row ''Colunas extras'' (join_or_dash (extras rep)),
         check_row ''80/20'' (if issues_80_20 rep = [] then ''OK'' else repr_issues (issues_80_20 rep)),
         check_row ''Valores negativos'' (join_or_dash (negativos rep)),
         check_row (''Valida'' @ [CHR 0xE7, CHR 0xF5] @ ''es ref. detectada?'')
           (if tem_val_ref then ''Sim'' else ''N'' @ [CHR 0xE3] @ ''o utilizado'')]\<rparr>"

text \<open>
  \<open>validar_conformidade_tool\<close> on resolved paths: \<open>_find_excel\<close>, the file-name
  heuristic, has run, and a path that holds no workbook stands for its
  \<open>FileNotFoundError\<close>. The optional reference is the path it resolves to, if it is
  given and resolves. The reinforcement is \<open>_aplicar_80_20_no_arquivo\<close> on the
  generated file, whose workbook is then read again. The result is the report and the
  file system, in which the generated workbook has its validations sheet rewritten.
\<close>

definition validar_conformidade_tool ::
  "(string \<Rightarrow> rat option) \<Rightarrow> fs \<Rightarrow> string \<Rightarrow> string \<Rightarrow> string option \<Rightarrow> rat
     \<Rightarrow> error + report \<times> fs" where
  "validar_conformidade_tool pn f gerado modelo validacoes_ref tolerancia =
     (case (files f gerado, files f modelo) of
        (None, _) \<Rightarrow> Inl (FileNotFoundError gerado)
      | (_, None) \<Rightarrow> Inl (FileNotFoundError modelo)
      | (Some wb_out, Some wb_modelo) \<Rightarrow>
          (case pick_sheet wb_modelo of
             Inl e \<Rightarrow> Inl e
           | Inr (aba_m, df_modelo) \<Rightarrow>
               (case pick_sheet wb_out of
                  Inl e \<Rightarrow> Inl e
                | Inr (aba_out, df_out) \<Rightarrow>
                    (let colunas_esperadas = columns df_modelo;
                         falt = filter (\<lambda>c. c \<notin> set (columns df_out)) colunas_esperadas;
                         extr = filter (\<lambda>c. c \<notin> set colunas_esperadas) (columns df_out)
                     in case (if \<not> list_all (\<lambda>c. c \<in> set (columns df_out)) cost_cols then
                                (case aplicar_80_20_wb pn wb_out of
                                   Inl e \<Rightarrow> Inl e
                                 | Inr wb1 \<Rightarrow>
                                     (case read_sheet wb1 aba_out of
                                        Inl e \<Rightarrow> Inl e
                                      | Inr df1 \<Rightarrow> Inr (wb1, df1)))
                              else Inr (wb_out, df_out)) of
                          Inl e \<Rightarrow> Inl e
                        | Inr (wb1, df1) \<Rightarrow>
                            (let rep = \<lparr>arquivo = gerado, aba_modelo = aba_m, faltantes = falt,
                                        extras = extr, issues_80_20 = issues_of pn tolerancia df1,
                                        negativos = negativos_of pn df1\<rparr>;
                                 f1 = f\<lparr>files := (files f)(gerado \<mapsto> wb1)\<rparr>;
                                 tem_val_ref =
                                   (case validacoes_ref of
                                      None \<Rightarrow> False
                                    | Some p \<Rightarrow>
                                        (case files f1 p of
                                           None \<Rightarrow> False
                                         | Some wb \<Rightarrow> validacoes_name \<in> set (map fst wb)))
                             in Inr (rep, f\<lparr>files := (files f)(gerado \<mapsto>
                                         write_sheet validacoes_name (resumo rep tem_val_ref) wb1)\<rparr>))))))"

section \<open>Notions used to state the properties\<close>

text \<open>
  The condition under which the builder joins the vacation table: it has a row and a
  column, the active table has \<open>MATRICULA\<close>, and the vacation table has
  \<open>DIAS_DE_FERIAS\<close>.
\<close>

definition tem_ferias :: "table \<Rightarrow> table \<Rightarrow> bool" where
  "tem_ferias ativos ferias \<longleftrightarrow>
     \<not> df_empty ferias \<and> ''MATRICULA'' \<in> set (columns ativos)
       \<and> ''DIAS_DE_FERIAS'' \<in> set (columns ferias)"

text \<open>The vacation records of the employee of row \<open>r\<close>, and the days one record gives.\<close>

definition registros_ferias :: "table \<Rightarrow> row \<Rightarrow> row list" where
  "registros_ferias ferias r = filter (\<lambda>f. f ''MATRICULA'' = r ''MATRICULA'') (rows ferias)"

definition dias_registrados :: "row \<Rightarrow> rat" where
  "dias_registrados f = (case f ''DIAS_DE_FERIAS'' of Num k \<Rightarrow> k | _ \<Rightarrow> 0)"

text \<open>
  The condition under which the builder filters the active table, and the registration
  numbers of a table.
\<close>

definition exclui_desligados :: "table \<Rightarrow> table \<Rightarrow> bool" where
  "exclui_desligados ativos desligados \<longleftrightarrow>
     \<not> df_empty desligados \<and> ''MATRICULA'' \<in> set (columns ativos)"

definition matriculas :: "table \<Rightarrow> cell set" where
  "matriculas t = set (map (\<lambda>d. d ''MATRICULA'') (rows t))"

text \<open>
  A row \<open>r\<close> of the eligibility table is the active row \<open>a\<close> when the two agree on
  every column but those the builder computes.
\<close>

definition derived_columns :: "string set" where
  "derived_columns =
     {''DIAS_DE_FERIAS'', ''DIAS'', ''VALOR_DIARIO_VR'', ''TOTAL'', ''SINDICATO'', ''ESTADO''}"

definition row_from :: "row \<Rightarrow> row \<Rightarrow> bool" where
  "row_from r a \<longleftrightarrow> (\<forall>c. c \<in> derived_columns \<or> r c = a c)"

section \<open>Example data\<close>

text \<open>
  The scenario of the specification: employees 1, 2 and 3 are active, employee 2 has ten
  days of vacation, employee 3 is terminated.
\<close>

definition row_of_cells :: "(string \<times> cell) list \<Rightarrow> row" where
  "row_of_cells kv = (\<lambda>c. case map_of kv c of Some v \<Rightarrow> v | None \<Rightarrow> NaN)"

definition exemplo_bases :: "table dict" where
  "exemplo_bases =
     [(''ATIVOS'', \<lparr>columns = [''MATRICULA'', ''EMPRESA''],
         rows = [row_of_cells [(''MATRICULA'', Num 1), (''EMPRESA'', Str ''A'')],
                 row_of_cells [(''MATRICULA'', Num 2), (''EMPRESA'', Str ''B'')],
                 row_of_cells [(''MATRICULA'', Num 3), (''EMPRESA'', Str ''C'')]]\<rparr>),
      (''FERIAS'', \<lparr>columns = [''MATRICULA'', ''DIAS_DE_FERIAS''],
         rows = [row_of_cells [(''MATRICULA'', Num 2), (''DIAS_DE_FERIAS'', Num 10)]]\<rparr>),
      (''DESLIGADOS'', \<lparr>columns = [''MATRICULA''],
         rows = [row_of_cells [(''MATRICULA'', Num 3)]]\<rparr>)]"

definition exemplo_ctx :: "string \<Rightarrow> contexto" where
  "exemplo_ctx regra =
     \<lparr>periodo_ini = (2025, 8, 1), periodo_fim = (2025, 8, 31), competencia = (2025, 8, 1),
      pos15_regra = regra\<rparr>"

text \<open>
  An input directory \<open>entradas\<close> holding three workbooks under the given names, in the
  order active, vacation, terminated, with the headers as a person types them.
  \<open>CHR 0xED\<close> is the accented i and \<open>CHR 0xE9\<close> the accented e.
\<close>

definition exemplo_wbs :: "workbook list" where
  "exemplo_wbs =
     (let matricula = ''Matr'' @ [CHR 0xED] @ ''cula'';
          dias = ''Dias de  F'' @ [CHR 0xE9] @ ''rias''
      in [[(''Plan1'', \<lparr>columns = [matricula, ''Empresa''],
              rows = [row_of_cells [(matricula, Num 1), (''Empresa'', Str ''A'')],
                      row_of_cells [(matricula, Num 2), (''Empresa'', Str ''B'')],
                      row_of_cells [(matricula, Num 3), (''Empresa'', Str ''C'')]]\<rparr>)],
          [(''Plan1'', \<lparr>columns = [matricula, dias],
              rows = [row_of_cells [(matricula, Num 2), (dias, Num 10)]]\<rparr>)],
          [(''Plan1'', \<lparr>columns = [matricula],
              rows = [row_of_cells [(matricula, Num 3)]]\<rparr>)]])"

definition exemplo_fs :: "string list \<Rightarrow> fs" where
  "exemplo_fs nomes =
     \<lparr>dirs = [''entradas'' \<mapsto> nomes],
      files = map_of (zip (map (path_join ''entradas'') nomes) exemplo_wbs)\<rparr>"

definition nomes_acentuados :: "string list" where
  "nomes_acentuados = [''ATIVOS.xlsx'', ''F'' @ [CHR 0xC9] @ ''RIAS.xlsx'', ''DESLIGADOS.xlsx'']"

definition nomes_sem_acento :: "string list" where
  "nomes_sem_acento = [''ativos.xlsx'', ''ferias 2025.xlsx'', ''desligados.xlsx'']"

text \<open>A generated sheet with one employee whose total is zero, the split being exact.\<close>

definition folha_zero :: table where
  "folha_zero =
     \<lparr>columns = [''MATRICULA'', ''TOTAL'', ''Custo empresa'', ''Desconto profissional''],
      rows = [row_of_cells [(''MATRICULA'', Num 1), (''TOTAL'', Num 0), (''Custo empresa'', Num 0),
                            (''Desconto profissional'', Num 0)]]\<rparr>"

text \<open>
  Two files for the validator: a template whose sheet has the columns \<open>MATRICULA\<close> and
  \<open>TOTAL\<close>, and a generated workbook with the given result sheet.
\<close>

definition exemplo_validar_fs :: "table \<Rightarrow> fs" where
  "exemplo_validar_fs folha =
     \<lparr>dirs = (\<lambda>d. None),
      files = [''modelo.xlsx'' \<mapsto> [(''VR Mensal 05.2025'', \<lparr>columns = [''MATRICULA'', ''TOTAL''], rows = []\<rparr>)],
               ''VR.xlsx'' \<mapsto> [(''VR Mensal'', folha)]]\<rparr>"

text \<open>A generated sheet that has no cost columns yet.\<close>

definition folha_sem_custos :: table where
  "folha_sem_custos =
     \<lparr>columns = [''MATRICULA'', ''TOTAL''],
      rows = [row_of_cells [(''MATRICULA'', Num 1), (''TOTAL'', Num 660)]]\<rparr>"

section \<open>Text: lemmas\<close>

text \<open>\<open>str_in\<close> is Python's substring test.\<close>

lemma starts_with_iff: "starts_with p s \<longleftrightarrow> (\<exists>q. s = p @ q)"
  by (induction p s rule: starts_with.induct) auto

lemma str_in_iff: "str_in sub s \<longleftrightarrow> (\<exists>p q. s = p @ sub @ q)"
proof (induction s)
  case Nil
  then show ?case by auto
next
  case (Cons c cs)
  show ?case
  proof
    assume "str_in sub (c # cs)"
    then consider "starts_with sub (c # cs)" | "str_in sub cs" by auto
    then show "\<exists>p q. c # cs = p @ sub @ q"
    proof cases
      case 1
      then obtain q where "c # cs = sub @ q" by (auto simp: starts_with_iff)
      then have "c # cs = [] @ sub @ q" by simp
      then show ?thesis by blast
    next
      case 2
      then obtain p q where "cs = p @ sub @ q" using Cons.IH by auto
      then have "c # cs = (c # p) @ sub @ q" by simp
      then show ?thesis by blast
    qed
  next
    assume "\<exists>p q. c # cs = p @ sub @ q"
    then obtain p q where pq: "c # cs = p @ sub @ q" by auto
    show "str_in sub (c # cs)"
    proof (cases p)
      case Nil
      then have "starts_with sub (c # cs)" using pq by (auto simp: starts_with_iff)
      then show ?thesis by simp
    next
      case (Cons a p')
      then have "cs = p' @ sub @ q" using pq by simp
      then have "str_in sub cs" using Cons.IH by blast
      then show ?thesis by simp
    qed
  qed
qed

lemma first_uf_filter:
  "first_uf l s = (case filter (\<lambda>uf. str_in uf s) l of [] \<Rightarrow> ''?'' | uf # _ \<Rightarrow> uf)"
  by (induction l) auto

lemma first_uf_none: "\<not> (\<exists>uf \<in> set l. str_in uf s) \<Longrightarrow> first_uf l s = ''?''"
  by (induction l) auto

lemma first_uf_index:
  "i < length l \<Longrightarrow> str_in (l ! i) s \<Longrightarrow> \<not> (\<exists>j<i. str_in (l ! j) s) \<Longrightarrow> first_uf l s = l ! i"
proof (induction l arbitrary: i)
  case Nil
  then show ?case by simp
next
  case (Cons u l)
  show ?case
  proof (cases i)
    case 0
    then show ?thesis using Cons.prems by simp
  next
    case (Suc k)
    have "\<not> str_in u s" using Cons.prems(3) Suc by auto
    moreover have "first_uf l s = l ! k"
    proof (rule Cons.IH)
      show "k < length l" using Cons.prems(1) Suc by simp
      show "str_in (l ! k) s" using Cons.prems(2) Suc by simp
      show "\<not> (\<exists>j<k. str_in (l ! j) s)"
      proof
        assume "\<exists>j<k. str_in (l ! j) s"
        then obtain j where "j < k" "str_in (l ! j) s" by auto
        then have "Suc j < i \<and> str_in ((u # l) ! Suc j) s" using Suc by simp
        then show False using Cons.prems(3) by blast
      qed
    qed
    ultimately show ?thesis using Suc by simp
  qed
qed

lemma first_uf_take:
  assumes "i < length l" "str_in (l ! i) s" "\<not> (\<exists>u \<in> set (take i l). str_in u s)"
  shows "first_uf l s = l ! i"
proof (rule first_uf_index [OF assms(1,2)])
  show "\<not> (\<exists>j<i. str_in (l ! j) s)"
  proof
    assume "\<exists>j<i. str_in (l ! j) s"
    then obtain j where j: "j < i" "str_in (l ! j) s" by auto
    then have "take i l ! j = l ! j" "j < length (take i l)" using assms(1) by simp_all
    then have "l ! j \<in> set (take i l)" by (metis nth_mem)
    then show False using j(2) assms(3) by blast
  qed
qed

lemma first_uf_only:
  "filter (\<lambda>u. str_in u s) l = [uf] \<Longrightarrow> first_uf l s = uf"
  by (simp add: first_uf_filter)

text \<open>
  C8. Region inference on a union-chapter string, by its accent-stripped upper-case form:
  when exactly one of the sixteen codes is a substring of it, that code is returned; when
  none is, the sentinel \<open>?\<close>; and when several are, the one that comes first in the
  fixed list, which is the code at index \<open>i\<close> when no code before index \<open>i\<close> is
  a substring.
\<close>

theorem infer_estado_first_match:
  fixes x y z :: string
  defines "S \<equiv> strip_accents_upper_str"
  shows "(filter (\<lambda>u. str_in u (S x)) ufs = [uf] \<longrightarrow> infer_estado_from_sindicato (Str x) = uf)
       \<and> (\<not> (\<exists>u \<in> set ufs. str_in u (S y)) \<longrightarrow> infer_estado_from_sindicato (Str y) = ''?'')
       \<and> (i < length ufs \<and> str_in (ufs ! i) (S z) \<and> \<not> (\<exists>u \<in> set (take i ufs). str_in u (S z))
            \<longrightarrow> infer_estado_from_sindicato (Str z) = ufs ! i)
       \<and> ufs = [''SP'', ''RJ'', ''MG'', ''RS'', ''PR'', ''SC'', ''BA'', ''PE'',
                 ''GO'', ''DF'', ''ES'', ''MT'', ''MS'', ''PA'', ''AM'', ''CE'']"
proof -
  have a: "filter (\<lambda>u. str_in u (S x)) ufs = [uf] \<longrightarrow> infer_estado_from_sindicato (Str x) = uf"
    by (simp add: infer_estado_from_sindicato_def S_def first_uf_only)
  have b: "\<not> (\<exists>u \<in> set ufs. str_in u (S y)) \<longrightarrow> infer_estado_from_sindicato (Str y) = ''?''"
    by (simp only: infer_estado_from_sindicato_def S_def cell.case) (blast intro: first_uf_none)
  have c: "i < length ufs \<and> str_in (ufs ! i) (S z) \<and> \<not> (\<exists>u \<in> set (take i ufs). str_in u (S z))
            \<longrightarrow> infer_estado_from_sindicato (Str z) = ufs ! i"
    by (simp only: infer_estado_from_sindicato_def S_def cell.case) (blast intro: first_uf_take)
  show ?thesis using a b c by (simp only: ufs_def simp_thms)
qed


lemmas text_eval = strip_accents_upper_str_def strip_def is_space_def strip_accents_def
  strip_accent_char_def upper_def upper_char_def lower_def lower_char_def char_of_def

theorem infer_estado_first_match_witness:
  "filter (\<lambda>u. str_in u (strip_accents_upper_str (''Sind. Comerci'' @ [CHR 0xE1] @ ''rios sp ''))) ufs = [''SP'']
   \<and> infer_estado_from_sindicato (Str (''Sind. Comerci'' @ [CHR 0xE1] @ ''rios sp '')) = ''SP''
   \<and> \<not> (\<exists>u \<in> set ufs. str_in u (strip_accents_upper_str ''Sindicato''))
   \<and> infer_estado_from_sindicato (Str ''Sindicato'') = ''?''
   \<and> (2::nat) < length ufs \<and> str_in (ufs ! 2) (strip_accents_upper_str ''rs/mg'')
   \<and> \<not> (\<exists>u \<in> set (take 2 ufs). str_in u (strip_accents_upper_str ''rs/mg''))
   \<and> infer_estado_from_sindicato (Str ''rs/mg'') = ufs ! 2 \<and> ufs ! 2 = ''MG''"
proof -
  have e1: "strip_accents_upper_str (''Sind. Comerci'' @ [CHR 0xE1] @ ''rios sp '') = ''SIND. COMERCIARIOS SP''"
    by (simp add: text_eval)
  have e2: "strip_accents_upper_str ''Sindicato'' = ''SINDICATO''"
    by (simp add: text_eval)
  have e3: "strip_accents_upper_str ''rs/mg'' = ''RS/MG''"
    by (simp add: text_eval)
  have h1: "filter (\<lambda>u. str_in u (strip_accents_upper_str (''Sind. Comerci'' @ [CHR 0xE1] @ ''rios sp ''))) ufs = [''SP'']"
    unfolding e1 by (simp add: ufs_def)
  have h2: "\<not> (\<exists>u \<in> set ufs. str_in u (strip_accents_upper_str ''Sindicato''))"
    unfolding e2 by (simp add: ufs_def)
  have h3: "(2::nat) < length ufs \<and> str_in (ufs ! 2) (strip_accents_upper_str ''rs/mg'')
   \<and> \<not> (\<exists>u \<in> set (take 2 ufs). str_in u (strip_accents_upper_str ''rs/mg''))"
    unfolding e3 by (simp add: ufs_def)
  have h4: "ufs ! 2 = ''MG''" by (simp add: ufs_def)
  show ?thesis
    using h1 h2 h3 h4
      infer_estado_first_match [of "''Sind. Comerci'' @ [CHR 0xE1] @ ''rios sp ''" "''SP''" "''Sindicato''" 2 "''rs/mg''"]
    by blast
qed

section \<open>The eligibility builder: lemmas\<close>

lemma rows_set_col: "rows (set_col c f t) = map (\<lambda>r. r(c := f r)) (rows t)"
  by (simp add: set_col_def)

lemma columns_set_col:
  "columns (set_col c f t) = (if c \<in> set (columns t) then columns t else columns t @ [c])"
  by (simp add: set_col_def)

lemma montar_stages:
  assumes "montar_base_elegiveis ns bases ctx = Inr t"
  obtains a1 a2 where
    "remove_desligados (dict_get bases ''ATIVOS'' empty_df) (dict_get bases ''DESLIGADOS'' empty_df) = Inr a1"
    "ajusta_dias a1 (dict_get bases ''FERIAS'' empty_df) = Inr a2"
    "t = sindicato_e_estado ns (valor_e_total a2)"
  using assms by (auto simp: montar_base_elegiveis_def Let_def split: sum.splits)

text \<open>The last two stages touch four columns only, and fix the rate and the total.\<close>

lemma final_rows:
  assumes "r \<in> set (rows (sindicato_e_estado ns (valor_e_total a2)))"
  obtains r2 where "r2 \<in> set (rows a2)"
    "r ''VALOR_DIARIO_VR'' = Num 30"
    "r ''TOTAL'' = cell_times (r2 ''DIAS'') (Num 30)"
    "\<And>c. c \<notin> {''VALOR_DIARIO_VR'', ''TOTAL'', ''SINDICATO'', ''ESTADO''} \<Longrightarrow> r c = r2 c"
  using assms
  by (auto simp: sindicato_e_estado_def valor_e_total_def rows_set_col split: if_splits)

lemma final_rows_onto:
  assumes "r2 \<in> set (rows a2)"
  obtains r where "r \<in> set (rows (sindicato_e_estado ns (valor_e_total a2)))"
    "\<And>c. c \<notin> {''VALOR_DIARIO_VR'', ''TOTAL'', ''SINDICATO'', ''ESTADO''} \<Longrightarrow> r c = r2 c"
proof (cases "''SINDICATO'' \<in> set (columns (valor_e_total a2))")
  case True
  let ?g = "\<lambda>r. r(''ESTADO'' := Str (infer_estado_from_sindicato (r ''SINDICATO'')))"
  let ?h = "\<lambda>r. r(''SINDICATO'' := Str (strip_accents_upper ns (r ''SINDICATO'')))"
  let ?v = "\<lambda>r. r(''TOTAL'' := cell_times (r ''DIAS'') (r ''VALOR_DIARIO_VR''))"
  let ?w = "\<lambda>r. r(''VALOR_DIARIO_VR'' := Num 30)"
  let ?r = "?g (?h (?v (?w r2)))"
  have "?r \<in> set (rows (sindicato_e_estado ns (valor_e_total a2)))"
    using assms True
    by (auto simp: sindicato_e_estado_def valor_e_total_def rows_set_col image_iff intro!: bexI [of _ r2])
  moreover have "\<And>c. c \<notin> {''VALOR_DIARIO_VR'', ''TOTAL'', ''SINDICATO'', ''ESTADO''} \<Longrightarrow> ?r c = r2 c"
    by simp
  ultimately show ?thesis using that by blast
next
  case False
  let ?v = "\<lambda>r. r(''TOTAL'' := cell_times (r ''DIAS'') (r ''VALOR_DIARIO_VR''))"
  let ?w = "\<lambda>r. r(''VALOR_DIARIO_VR'' := Num 30)"
  let ?r = "?v (?w r2)"
  have "?r \<in> set (rows (sindicato_e_estado ns (valor_e_total a2)))"
    using assms False
    by (auto simp: sindicato_e_estado_def valor_e_total_def rows_set_col image_iff intro!: bexI [of _ r2])
  moreover have "\<And>c. c \<notin> {''VALOR_DIARIO_VR'', ''TOTAL'', ''SINDICATO'', ''ESTADO''} \<Longrightarrow> ?r c = r2 c"
    by simp
  ultimately show ?thesis using that by blast
qed

lemma columns_remove_desligados:
  "remove_desligados a d = Inr a1 \<Longrightarrow> columns a1 = columns a"
  by (auto simp: remove_desligados_def split: if_splits)

lemma rows_remove_desligados:
  "remove_desligados a d = Inr a1 \<Longrightarrow>
   rows a1 = (if \<not> df_empty d \<and> ''MATRICULA'' \<in> set (columns a)
              then filter (\<lambda>r. r ''MATRICULA'' \<notin> set (map (\<lambda>x. x ''MATRICULA'') (rows d))) (rows a)
              else rows a)"
  by (auto simp: remove_desligados_def split: if_splits)

lemma merge_left_row_cases:
  assumes "m \<in> set (merge_left_row fs a)"
  shows "(\<forall>c. c \<noteq> ''DIAS_DE_FERIAS'' \<longrightarrow> m c = a c) \<and>
     (if filter (\<lambda>f. f ''MATRICULA'' = a ''MATRICULA'') fs = [] then m ''DIAS_DE_FERIAS'' = NaN
      else \<exists>f \<in> set (filter (\<lambda>f. f ''MATRICULA'' = a ''MATRICULA'') fs).
             m ''DIAS_DE_FERIAS'' = f ''DIAS_DE_FERIAS'')"
proof (cases "filter (\<lambda>f. f ''MATRICULA'' = a ''MATRICULA'') fs")
  case Nil
  then have "m = a(''DIAS_DE_FERIAS'' := NaN)" using assms by (simp add: merge_left_row_def)
  then show ?thesis using Nil by simp
next
  case (Cons x xs)
  then have "m \<in> (\<lambda>f. a(''DIAS_DE_FERIAS'' := f ''DIAS_DE_FERIAS'')) ` set (x # xs)"
    using assms by (simp add: merge_left_row_def)
  then obtain f where "f \<in> set (x # xs)" "m = a(''DIAS_DE_FERIAS'' := f ''DIAS_DE_FERIAS'')"
    by blast
  then show ?thesis unfolding Cons by auto
qed

lemma merge_left_row_nonempty: "merge_left_row fs a \<noteq> []"
  by (simp add: merge_left_row_def split: list.splits)

lemma ajusta_dias_rows:
  assumes "ajusta_dias a1 ferias = Inr a2" "r2 \<in> set (rows a2)"
  obtains a where "a \<in> set (rows a1)"
    "\<And>c. c \<notin> {''DIAS_DE_FERIAS'', ''DIAS''} \<Longrightarrow> r2 c = a c"
    "\<not> tem_ferias a1 ferias \<Longrightarrow> r2 ''DIAS'' = Num 22 \<and> r2 ''DIAS_DE_FERIAS'' = a ''DIAS_DE_FERIAS''"
    "tem_ferias a1 ferias \<Longrightarrow> filter (\<lambda>f. f ''MATRICULA'' = a ''MATRICULA'') (rows ferias) = [] \<Longrightarrow> r2 ''DIAS'' = Num 22"
    "tem_ferias a1 ferias \<Longrightarrow> filter (\<lambda>f. f ''MATRICULA'' = a ''MATRICULA'') (rows ferias) \<noteq> [] \<Longrightarrow>
       \<exists>f \<in> set (filter (\<lambda>f. f ''MATRICULA'' = a ''MATRICULA'') (rows ferias)).
          dias_of (f ''DIAS_DE_FERIAS'') = Some (r2 ''DIAS'')"
proof (cases "tem_ferias a1 ferias")
  case False
  then have "a2 = set_col ''DIAS'' (\<lambda>r. Num 22) a1"
    using assms(1) by (auto simp: ajusta_dias_def tem_ferias_def split: if_splits)
  then obtain a where "a \<in> set (rows a1)" "r2 = a(''DIAS'' := Num 22)"
    using assms(2) by (auto simp: rows_set_col)
  then show ?thesis using that [of a] False by simp
next
  case True
  let ?m = "merge_left a1 ferias"
  have ok: "\<not> (\<exists>r \<in> set (rows ?m). dias_of (r ''DIAS_DE_FERIAS'') = None)"
    and a2: "a2 = set_col ''DIAS'' (\<lambda>r. the (dias_of (r ''DIAS_DE_FERIAS''))) ?m"
    using assms(1) True by (auto simp: ajusta_dias_def tem_ferias_def Let_def split: if_splits)
  obtain m where m: "m \<in> set (rows ?m)" "r2 = m(''DIAS'' := the (dias_of (m ''DIAS_DE_FERIAS'')))"
    using assms(2) a2 by (auto simp: rows_set_col)
  obtain a where a: "a \<in> set (rows a1)" "m \<in> set (merge_left_row (rows ferias) a)"
    using m(1) by (auto simp: merge_left_def)
  note mc = merge_left_row_cases [OF a(2)]
  obtain d where d: "dias_of (m ''DIAS_DE_FERIAS'') = Some d" using ok m(1) by auto
  have r2d: "r2 ''DIAS'' = d" using m(2) d by simp
  show ?thesis
  proof (rule that [of a])
    show "a \<in> set (rows a1)" by (rule a(1))
    show "\<And>c. c \<notin> {''DIAS_DE_FERIAS'', ''DIAS''} \<Longrightarrow> r2 c = a c" using m(2) mc by simp
    show "\<not> tem_ferias a1 ferias \<Longrightarrow> r2 ''DIAS'' = Num 22 \<and> r2 ''DIAS_DE_FERIAS'' = a ''DIAS_DE_FERIAS''"
      using True by simp
    show "filter (\<lambda>f. f ''MATRICULA'' = a ''MATRICULA'') (rows ferias) = [] \<Longrightarrow> r2 ''DIAS'' = Num 22"
      using mc d r2d by auto
    show "filter (\<lambda>f. f ''MATRICULA'' = a ''MATRICULA'') (rows ferias) \<noteq> [] \<Longrightarrow>
       \<exists>f \<in> set (filter (\<lambda>f. f ''MATRICULA'' = a ''MATRICULA'') (rows ferias)).
          dias_of (f ''DIAS_DE_FERIAS'') = Some (r2 ''DIAS'')"
      using mc d r2d by auto
  qed
qed

lemma ajusta_dias_onto:
  assumes "ajusta_dias a1 ferias = Inr a2" "a \<in> set (rows a1)"
  obtains r2 where "r2 \<in> set (rows a2)" "\<And>c. c \<notin> {''DIAS_DE_FERIAS'', ''DIAS''} \<Longrightarrow> r2 c = a c"
proof (cases "tem_ferias a1 ferias")
  case False
  then have "a2 = set_col ''DIAS'' (\<lambda>r. Num 22) a1"
    using assms(1) by (auto simp: ajusta_dias_def tem_ferias_def split: if_splits)
  then have "a(''DIAS'' := Num 22) \<in> set (rows a2)" using assms(2) by (simp add: rows_set_col)
  then show ?thesis using that [of "a(''DIAS'' := Num 22)"] by simp
next
  case True
  let ?m = "merge_left a1 ferias"
  have a2: "a2 = set_col ''DIAS'' (\<lambda>r. the (dias_of (r ''DIAS_DE_FERIAS''))) ?m"
    using assms(1) True by (auto simp: ajusta_dias_def tem_ferias_def Let_def split: if_splits)
  obtain m where m: "m \<in> set (merge_left_row (rows ferias) a)"
    using merge_left_row_nonempty [of "rows ferias" a] by (cases "merge_left_row (rows ferias) a") auto
  then have "m \<in> set (rows ?m)" using assms(2) by (auto simp: merge_left_def)
  then have "m(''DIAS'' := the (dias_of (m ''DIAS_DE_FERIAS''))) \<in> set (rows a2)"
    using a2 by (simp add: rows_set_col)
  moreover have "\<And>c. c \<notin> {''DIAS_DE_FERIAS'', ''DIAS''} \<Longrightarrow> (m(''DIAS'' := the (dias_of (m ''DIAS_DE_FERIAS'')))) c = a c"
    using merge_left_row_cases [OF m] by simp
  ultimately show ?thesis using that by blast
qed

lemma dias_of_Some: "dias_of (f ''DIAS_DE_FERIAS'') = Some d \<Longrightarrow> d = Num (22 - dias_registrados f)"
  by (cases "f ''DIAS_DE_FERIAS''") (auto simp: dias_registrados_def)

lemma montar_row:
  assumes "montar_base_elegiveis ns bases ctx = Inr t" "r \<in> set (rows t)"
  defines "A \<equiv> dict_get bases ''ATIVOS'' empty_df"
      and "F \<equiv> dict_get bases ''FERIAS'' empty_df"
      and "D \<equiv> dict_get bases ''DESLIGADOS'' empty_df"
  obtains a r2 a1 a2 where
    "remove_desligados A D = Inr a1" "ajusta_dias a1 F = Inr a2"
    "a \<in> set (rows a1)" "r2 \<in> set (rows a2)"
    "\<And>c. c \<notin> {''DIAS_DE_FERIAS'', ''DIAS''} \<Longrightarrow> r2 c = a c"
    "r ''VALOR_DIARIO_VR'' = Num 30"
    "r ''TOTAL'' = cell_times (r2 ''DIAS'') (Num 30)"
    "\<And>c. c \<notin> {''VALOR_DIARIO_VR'', ''TOTAL'', ''SINDICATO'', ''ESTADO''} \<Longrightarrow> r c = r2 c"
    "\<not> tem_ferias A F \<Longrightarrow> r2 ''DIAS'' = Num 22"
    "tem_ferias A F \<Longrightarrow> registros_ferias F r = [] \<Longrightarrow> r2 ''DIAS'' = Num 22"
    "tem_ferias A F \<Longrightarrow> registros_ferias F r \<noteq> [] \<Longrightarrow>
       \<exists>f \<in> set (registros_ferias F r). r2 ''DIAS'' = Num (22 - dias_registrados f)"
proof -
  obtain a1 a2 where st: "remove_desligados A D = Inr a1" "ajusta_dias a1 F = Inr a2"
    "t = sindicato_e_estado ns (valor_e_total a2)"
    using montar_stages [OF assms(1)] unfolding A_def F_def D_def by blast
  obtain r2 where r2: "r2 \<in> set (rows a2)" "r ''VALOR_DIARIO_VR'' = Num 30"
    "r ''TOTAL'' = cell_times (r2 ''DIAS'') (Num 30)"
    "\<And>c. c \<notin> {''VALOR_DIARIO_VR'', ''TOTAL'', ''SINDICATO'', ''ESTADO''} \<Longrightarrow> r c = r2 c"
    using final_rows [of r ns a2] assms(2) st(3) by blast
  have tf: "tem_ferias a1 F = tem_ferias A F"
    using columns_remove_desligados [OF st(1)] by (simp add: tem_ferias_def)
  obtain a where a: "a \<in> set (rows a1)"
    "\<And>c. c \<notin> {''DIAS_DE_FERIAS'', ''DIAS''} \<Longrightarrow> r2 c = a c"
    "\<not> tem_ferias a1 F \<Longrightarrow> r2 ''DIAS'' = Num 22 \<and> r2 ''DIAS_DE_FERIAS'' = a ''DIAS_DE_FERIAS''"
    "tem_ferias a1 F \<Longrightarrow> filter (\<lambda>f. f ''MATRICULA'' = a ''MATRICULA'') (rows F) = [] \<Longrightarrow> r2 ''DIAS'' = Num 22"
    "tem_ferias a1 F \<Longrightarrow> filter (\<lambda>f. f ''MATRICULA'' = a ''MATRICULA'') (rows F) \<noteq> [] \<Longrightarrow>
       \<exists>f \<in> set (filter (\<lambda>f. f ''MATRICULA'' = a ''MATRICULA'') (rows F)).
          dias_of (f ''DIAS_DE_FERIAS'') = Some (r2 ''DIAS'')"
    using ajusta_dias_rows [OF st(2) r2(1)] by blast
  have m: "r ''MATRICULA'' = a ''MATRICULA''" using r2(4) [of "''MATRICULA''"] a(2) [of "''MATRICULA''"] by simp
  have reg: "registros_ferias F r = filter (\<lambda>f. f ''MATRICULA'' = a ''MATRICULA'') (rows F)"
    by (simp add: registros_ferias_def m)
  show ?thesis
  proof (rule that [OF st(1) st(2) a(1) r2(1) a(2) r2(2) r2(3) r2(4)])
    show "\<not> tem_ferias A F \<Longrightarrow> r2 ''DIAS'' = Num 22" using a(3) tf by simp
    show "tem_ferias A F \<Longrightarrow> registros_ferias F r = [] \<Longrightarrow> r2 ''DIAS'' = Num 22"
      using a(4) tf reg by simp
    show "tem_ferias A F \<Longrightarrow> registros_ferias F r \<noteq> [] \<Longrightarrow>
       \<exists>f \<in> set (registros_ferias F r). r2 ''DIAS'' = Num (22 - dias_registrados f)"
      using a(5) tf reg dias_of_Some by metis
  qed
qed



text \<open>
  When the builder returns: the tables it indexes by \<open>MATRICULA\<close> have that column, the
  active table has no vacation-days column of its own, and no vacation record holds a
  text for its days.
\<close>

lemma montar_base_elegiveis_returns:
  fixes bases :: "table dict"
  defines "A \<equiv> dict_get bases ''ATIVOS'' empty_df"
      and "F \<equiv> dict_get bases ''FERIAS'' empty_df"
      and "D \<equiv> dict_get bases ''DESLIGADOS'' empty_df"
  assumes d: "exclui_desligados A D \<Longrightarrow> ''MATRICULA'' \<in> set (columns D)"
    and f: "tem_ferias A F \<Longrightarrow> ''MATRICULA'' \<in> set (columns F) \<and> ''DIAS_DE_FERIAS'' \<notin> set (columns A)
              \<and> \<not> list_ex (\<lambda>r. is_str (r ''DIAS_DE_FERIAS'')) (rows F)"
  shows "\<exists>t. montar_base_elegiveis ns bases ctx = Inr t"
proof -
  have "\<exists>a1. remove_desligados A D = Inr a1"
    using d by (cases "exclui_desligados A D") (auto simp: remove_desligados_def exclui_desligados_def)
  then obtain a1 where a1: "remove_desligados A D = Inr a1" "columns a1 = columns A"
    using columns_remove_desligados by blast
  have tf: "tem_ferias a1 F = tem_ferias A F" using a1(2) by (simp add: tem_ferias_def)
  have "\<exists>a2. ajusta_dias a1 F = Inr a2"
  proof (cases "tem_ferias A F")
    case False
    then show ?thesis using tf by (auto simp: ajusta_dias_def tem_ferias_def)
  next
    case True
    have ok: "dias_of (m ''DIAS_DE_FERIAS'') \<noteq> None" if m: "m \<in> set (rows (merge_left a1 F))" for m
    proof -
      obtain a where "a \<in> set (rows a1)" "m \<in> set (merge_left_row (rows F) a)"
        using m by (auto simp: merge_left_def)
      then have "m ''DIAS_DE_FERIAS'' = NaN \<or> (\<exists>r \<in> set (rows F). m ''DIAS_DE_FERIAS'' = r ''DIAS_DE_FERIAS'')"
        using merge_left_row_cases [of m "rows F" a] by (auto split: if_splits)
      moreover have "\<not> is_str (r ''DIAS_DE_FERIAS'')" if r: "r \<in> set (rows F)" for r
        using f [OF True] r by (auto simp: list_ex_iff)
      ultimately have "\<not> is_str (m ''DIAS_DE_FERIAS'')" by (auto simp: is_str_def)
      then show ?thesis by (cases "m ''DIAS_DE_FERIAS''") (auto simp: is_str_def)
    qed
    then have "\<not> (\<exists>r \<in> set (rows (merge_left a1 F)). dias_of (r ''DIAS_DE_FERIAS'') = None)"
      by blast
    then show ?thesis using True tf f [OF True] a1(2)
      by (auto simp: ajusta_dias_def tem_ferias_def Let_def)
  qed
  then obtain a2 where "ajusta_dias a1 F = Inr a2" by blast
  then show ?thesis using a1(1) unfolding A_def F_def D_def
    by (simp add: montar_base_elegiveis_def Let_def)
qed


lemmas builder_eval = montar_base_elegiveis_def remove_desligados_def ajusta_dias_def
  merge_left_def merge_left_row_def valor_e_total_def sindicato_e_estado_def set_col_def
  cell_times_def dict_get_def empty_df_def df_empty_def row_of_cells_def

lemma exemplo_run:
  "\<exists>t. montar_base_elegiveis (\<lambda>q. ''0'') exemplo_bases (exemplo_ctx ''integral'') = Inr t
     \<and> rows t \<noteq> []
     \<and> map (\<lambda>r. map r [''MATRICULA'', ''DIAS'', ''VALOR_DIARIO_VR'', ''TOTAL'']) (rows t)
         = [[Num 1, Num 22, Num 30, Num 660], [Num 2, Num 12, Num 30, Num 360]]
     \<and> map (last (rows t)) [''MATRICULA'', ''DIAS'', ''TOTAL''] = [Num 2, Num 12, Num 360]"
  by (simp add: builder_eval exemplo_bases_def)


lemma row_from_trans:
  assumes "\<And>c. c \<notin> {''VALOR_DIARIO_VR'', ''TOTAL'', ''SINDICATO'', ''ESTADO''} \<Longrightarrow> r c = r2 c"
    and "\<And>c. c \<notin> {''DIAS_DE_FERIAS'', ''DIAS''} \<Longrightarrow> r2 c = a c"
  shows "row_from r a"
  unfolding row_from_def derived_columns_def
proof
  fix c
  show "c \<in> {''DIAS_DE_FERIAS'', ''DIAS'', ''VALOR_DIARIO_VR'', ''TOTAL'', ''SINDICATO'', ''ESTADO''} \<or> r c = a c"
  proof (cases "c \<in> {''DIAS_DE_FERIAS'', ''DIAS'', ''VALOR_DIARIO_VR'', ''TOTAL'', ''SINDICATO'', ''ESTADO''}")
    case True
    then show ?thesis by simp
  next
    case False
    then have "r c = r2 c" "r2 c = a c" using assms(1) [of c] assms(2) [of c] by simp_all
    then show ?thesis by simp
  qed
qed

lemma row_from_matricula: "row_from r a \<Longrightarrow> r ''MATRICULA'' = a ''MATRICULA''"
  unfolding row_from_def derived_columns_def by (drule spec [of _ "''MATRICULA''"]) simp

text \<open>
  C3. The eligibility table the builder returns, against the active table: an active row
  whose \<open>MATRICULA\<close> is among the terminated table's, when that table is not empty and
  the active table has the column, has no row with its \<open>MATRICULA\<close> in the result;
  every other active row is in the result; and the result has no other row. So every
  active row is kept when the terminated table is empty or the column is missing.
\<close>

theorem exclusao_desligados:
  assumes "montar_base_elegiveis ns bases ctx = Inr t"
  defines "A \<equiv> dict_get bases ''ATIVOS'' empty_df"
      and "D \<equiv> dict_get bases ''DESLIGADOS'' empty_df"
  shows "(\<forall>a \<in> set (rows A). exclui_desligados A D \<and> a ''MATRICULA'' \<in> matriculas D \<longrightarrow>
            \<not> (\<exists>r \<in> set (rows t). r ''MATRICULA'' = a ''MATRICULA''))
       \<and> (\<forall>a \<in> set (rows A). \<not> (exclui_desligados A D \<and> a ''MATRICULA'' \<in> matriculas D) \<longrightarrow>
            (\<exists>r \<in> set (rows t). row_from r a))
       \<and> (\<forall>r \<in> set (rows t). \<exists>a \<in> set (rows A).
            \<not> (exclui_desligados A D \<and> a ''MATRICULA'' \<in> matriculas D) \<and> row_from r a)"
proof -
  obtain a1 a2 where st: "remove_desligados A D = Inr a1"
    "ajusta_dias a1 (dict_get bases ''FERIAS'' empty_df) = Inr a2"
    "t = sindicato_e_estado ns (valor_e_total a2)"
    using montar_stages [OF assms(1)] unfolding A_def D_def by blast
  have kept: "set (rows a1) =
      {a \<in> set (rows A). \<not> (exclui_desligados A D \<and> a ''MATRICULA'' \<in> matriculas D)}"
    using rows_remove_desligados [OF st(1)]
    by (auto simp: exclui_desligados_def matriculas_def)
  have only: "\<exists>a \<in> set (rows A).
      \<not> (exclui_desligados A D \<and> a ''MATRICULA'' \<in> matriculas D) \<and> row_from r a"
    if r: "r \<in> set (rows t)" for r
  proof -
    obtain r2 where r2: "r2 \<in> set (rows a2)"
      "\<And>c. c \<notin> {''VALOR_DIARIO_VR'', ''TOTAL'', ''SINDICATO'', ''ESTADO''} \<Longrightarrow> r c = r2 c"
      using final_rows [of r ns a2] r st(3) by blast
    obtain a where a: "a \<in> set (rows a1)" "\<And>c. c \<notin> {''DIAS_DE_FERIAS'', ''DIAS''} \<Longrightarrow> r2 c = a c"
      using ajusta_dias_rows [OF st(2) r2(1)] by blast
    have "row_from r a" using row_from_trans [of r r2 a] r2(2) a(2) by blast
    then show ?thesis using a(1) kept by blast
  qed
  have present: "\<exists>r \<in> set (rows t). row_from r a"
    if a: "a \<in> set (rows A)" "\<not> (exclui_desligados A D \<and> a ''MATRICULA'' \<in> matriculas D)" for a
  proof -
    have "a \<in> set (rows a1)" using a kept by blast
    then obtain r2 where r2: "r2 \<in> set (rows a2)"
      "\<And>c. c \<notin> {''DIAS_DE_FERIAS'', ''DIAS''} \<Longrightarrow> r2 c = a c"
      using ajusta_dias_onto [OF st(2)] by blast
    obtain r where r: "r \<in> set (rows (sindicato_e_estado ns (valor_e_total a2)))"
      "\<And>c. c \<notin> {''VALOR_DIARIO_VR'', ''TOTAL'', ''SINDICATO'', ''ESTADO''} \<Longrightarrow> r c = r2 c"
      using final_rows_onto [OF r2(1), of ns] by blast
    have "row_from r a" using row_from_trans [of r r2 a] r(2) r2(2) by blast
    then show ?thesis using r(1) st(3) by blast
  qed
  have absent: "\<not> (\<exists>r \<in> set (rows t). r ''MATRICULA'' = a ''MATRICULA'')"
    if a: "exclui_desligados A D \<and> a ''MATRICULA'' \<in> matriculas D" for a
  proof
    assume "\<exists>r \<in> set (rows t). r ''MATRICULA'' = a ''MATRICULA''"
    then obtain r where r: "r \<in> set (rows t)" "r ''MATRICULA'' = a ''MATRICULA''" by blast
    obtain b where b: "b \<in> set (rows A)"
      "\<not> (exclui_desligados A D \<and> b ''MATRICULA'' \<in> matriculas D)" "row_from r b"
      using only [OF r(1)] by blast
    have "b ''MATRICULA'' = a ''MATRICULA''" using row_from_matricula [OF b(3)] r(2) by simp
    then show False using a b(2) by simp
  qed
  show ?thesis using absent present only by blast
qed

text \<open>
  C9. Two contexts that agree on the period and on the competency month, whatever their
  \<open>pos15_regra\<close>, give the same result of the builder on every input.
\<close>

theorem pos15_regra_inert:
  assumes "periodo_ini c1 = periodo_ini c2" and "periodo_fim c1 = periodo_fim c2"
    and "competencia c1 = competencia c2"
  shows "montar_base_elegiveis ns bases c1 = montar_base_elegiveis ns bases c2"
  by (simp add: montar_base_elegiveis_def)

theorem pos15_regra_inert_witness:
  "periodo_ini (exemplo_ctx ''integral'') = periodo_ini (exemplo_ctx ''proporcional'')
   \<and> periodo_fim (exemplo_ctx ''integral'') = periodo_fim (exemplo_ctx ''proporcional'')
   \<and> competencia (exemplo_ctx ''integral'') = competencia (exemplo_ctx ''proporcional'')
   \<and> pos15_regra (exemplo_ctx ''integral'') \<noteq> pos15_regra (exemplo_ctx ''proporcional'')
   \<and> montar_base_elegiveis (\<lambda>q. ''0'') exemplo_bases (exemplo_ctx ''integral'')
       = montar_base_elegiveis (\<lambda>q. ''0'') exemplo_bases (exemplo_ctx ''proporcional'')"
proof -
  have h: "periodo_ini (exemplo_ctx ''integral'') = periodo_ini (exemplo_ctx ''proporcional'')"
    "periodo_fim (exemplo_ctx ''integral'') = periodo_fim (exemplo_ctx ''proporcional'')"
    "competencia (exemplo_ctx ''integral'') = competencia (exemplo_ctx ''proporcional'')"
    "pos15_regra (exemplo_ctx ''integral'') \<noteq> pos15_regra (exemplo_ctx ''proporcional'')"
    by (simp_all add: exemplo_ctx_def)
  show ?thesis
    by (intro conjI h pos15_regra_inert [OF h(1) h(2) h(3)])
qed

lemma exemplo_desligados:
  "exclui_desligados (dict_get exemplo_bases ''ATIVOS'' empty_df) (dict_get exemplo_bases ''DESLIGADOS'' empty_df)
   \<and> map (\<lambda>a. a ''MATRICULA'') (rows (dict_get exemplo_bases ''ATIVOS'' empty_df)) = [Num 1, Num 2, Num 3]
   \<and> matriculas (dict_get exemplo_bases ''DESLIGADOS'' empty_df) = {Num 3}"
  by (simp add: exclui_desligados_def matriculas_def dict_get_def exemplo_bases_def df_empty_def row_of_cells_def)

theorem exclusao_desligados_witness:
  "\<exists>t. montar_base_elegiveis (\<lambda>q. ''0'') exemplo_bases (exemplo_ctx ''integral'') = Inr t
     \<and> exclui_desligados (dict_get exemplo_bases ''ATIVOS'' empty_df) (dict_get exemplo_bases ''DESLIGADOS'' empty_df)
     \<and> map (\<lambda>a. a ''MATRICULA'') (rows (dict_get exemplo_bases ''ATIVOS'' empty_df)) = [Num 1, Num 2, Num 3]
     \<and> matriculas (dict_get exemplo_bases ''DESLIGADOS'' empty_df) = {Num 3}
     \<and> map (\<lambda>r. r ''MATRICULA'') (rows t) = [Num 1, Num 2]
     \<and> (\<forall>a \<in> set (rows (dict_get exemplo_bases ''ATIVOS'' empty_df)).
           a ''MATRICULA'' = Num 3 \<longrightarrow> \<not> (\<exists>r \<in> set (rows t). r ''MATRICULA'' = a ''MATRICULA''))
     \<and> (\<forall>a \<in> set (rows (dict_get exemplo_bases ''ATIVOS'' empty_df)).
           a ''MATRICULA'' \<noteq> Num 3 \<longrightarrow> (\<exists>r \<in> set (rows t). row_from r a))"
proof -
  obtain t where t: "montar_base_elegiveis (\<lambda>q. ''0'') exemplo_bases (exemplo_ctx ''integral'') = Inr t"
    "map (\<lambda>r. map r [''MATRICULA'', ''DIAS'', ''VALOR_DIARIO_VR'', ''TOTAL'']) (rows t)
         = [[Num 1, Num 22, Num 30, Num 660], [Num 2, Num 12, Num 30, Num 360]]"
    using exemplo_run by (elim exE conjE) (rule that; assumption)
  have m: "map (\<lambda>r. r ''MATRICULA'') (rows t) = [Num 1, Num 2]"
    using t(2) by (auto simp: map_eq_Cons_conv)
  note ex = exemplo_desligados
  note th = exclusao_desligados [OF t(1)]
  have c1: "\<forall>a \<in> set (rows (dict_get exemplo_bases ''ATIVOS'' empty_df)).
           a ''MATRICULA'' = Num 3 \<longrightarrow> \<not> (\<exists>r \<in> set (rows t). r ''MATRICULA'' = a ''MATRICULA'')"
    using th [THEN conjunct1] ex by simp
  have c2: "\<forall>a \<in> set (rows (dict_get exemplo_bases ''ATIVOS'' empty_df)).
           a ''MATRICULA'' \<noteq> Num 3 \<longrightarrow> (\<exists>r \<in> set (rows t). row_from r a)"
    using th [THEN conjunct2, THEN conjunct1] ex by simp
  show ?thesis
    by (rule exI [of _ t]) (intro conjI t(1) ex [THEN conjunct1] ex [THEN conjunct2, THEN conjunct1]
        ex [THEN conjunct2, THEN conjunct2] m c1 c2)
qed

section \<open>Ingestion and the pre-check: lemmas\<close>

lemma map_of_dict_set: "map_of (dict_set k v d) = (map_of d)(k \<mapsto> v)"
  by (induction d) (auto simp: fun_eq_iff)

lemma keys_dict_set: "fst ` set (dict_set k v d) = insert k (fst ` set d)"
proof -
  have "fst ` set (dict_set k v d) = dom (map_of (dict_set k v d))"
    by (simp add: dom_map_of_conv_image_fst)
  also have "\<dots> = insert k (dom (map_of d))" by (simp add: map_of_dict_set)
  finally show ?thesis by (simp add: dom_map_of_conv_image_fst)
qed



lemma carregar_loop_keys:
  "carregar_loop f ps b = Inr out \<Longrightarrow>
   fst ` set out \<subseteq> fst ` set b \<union> {''ATIVOS'', ''FERIAS'', ''DESLIGADOS''}"
proof (induction ps arbitrary: b)
  case Nil
  then show ?case by auto
next
  case (Cons q qs)
  from Cons.prems obtain df0 where df0: "read_excel f q = Inr df0"
    by (auto simp: Let_def split: sum.splits)
  let ?b = "case papel (upper (basename q)) of
              Some k' \<Rightarrow> dict_set k' (set_columns (normalize_cols (columns df0)) df0) b | None \<Rightarrow> b"
  have run: "carregar_loop f qs ?b = Inr out" using Cons.prems df0 by (simp add: Let_def)
  have "fst ` set ?b \<subseteq> fst ` set b \<union> {''ATIVOS'', ''FERIAS'', ''DESLIGADOS''}"
    by (auto simp: keys_dict_set papel_def split: option.splits if_splits)
  then show ?case using Cons.IH [OF run] by blast
qed

lemma carregar_bases_keys:
  "carregar_bases f d = Inr bases \<Longrightarrow> fst ` set bases \<subseteq> {''ATIVOS'', ''FERIAS'', ''DESLIGADOS''}"
  using carregar_loop_keys [of f "glob_xlsx f d" "[]" bases] by (simp add: carregar_bases_def)


lemma check_hints_fail:
  assumes "list_all (\<lambda>h. list_ex (\<lambda>f. str_in (lower h) f) fls) hs"
    "\<not> list_ex (\<lambda>f. str_in (lower h0) f) fls"
  shows "check_hints (hs @ h0 # rest) fls d = Inl (FileNotFoundError (msg_hint h0 d))"
  using assms by (induction hs) auto


subsection \<open>Upper and lower case of an ASCII letter\<close>

lemma of_char_range: "0 \<le> (of_char c :: int) \<and> (of_char c :: int) < 256"
proof -
  have "(of_char c :: int) mod 256 = of_char c" by (rule of_char_mod_256)
  then show ?thesis by (metis pos_mod_bound pos_mod_sign zero_less_numeral)
qed

lemma upper_of_lower_char:
  assumes "lower_char c = l" "97 \<le> (of_char l :: int)" "(of_char l :: int) \<le> 122"
  shows "upper_char c = [char_of ((of_char l :: int) - 32)]"
proof -
  let ?n = "of_char c :: int"
  note r = of_char_range [of c]
  show ?thesis
  proof (cases "(65 \<le> ?n \<and> ?n \<le> 90) \<or> (192 \<le> ?n \<and> ?n \<le> 222 \<and> ?n \<noteq> 215)")
    case True
    then have "char_of (?n + 32) = l" using assms(1) by (simp add: lower_char_def Let_def)
    then have "(of_char (char_of (?n + 32)) :: int) = of_char l" by simp
    then have "(?n + 32) mod 256 = of_char l" by (simp only: of_char_of)
    moreover have "(?n + 32) mod 256 = ?n + 32"
      by (rule mod_pos_pos_trivial) (use True r in auto)
    ultimately have n: "?n = of_char l - 32" by simp
    then have "65 \<le> ?n \<and> ?n \<le> 90" using assms(2,3) by simp
    then have "upper_char c = [c]" by (simp add: upper_char_def Let_def)
    moreover have "c = char_of ?n" by simp
    ultimately show ?thesis using n by simp
  next
    case False
    have "lower_char c = c" unfolding lower_char_def Let_def using False by (rule if_not_P)
    then have "c = l" using assms(1) by simp
    then show ?thesis using assms(2,3) by (simp add: upper_char_def Let_def)
  qed
qed

lemma upper_of_lower:
  "map lower_char m = ls \<Longrightarrow> list_all (\<lambda>l. 97 \<le> (of_char l :: int) \<and> (of_char l :: int) \<le> 122) ls \<Longrightarrow>
   upper m = map (\<lambda>l. char_of ((of_char l :: int) - 32)) ls"
proof (induction m arbitrary: ls)
  case Nil
  then show ?case by (simp add: upper_def)
next
  case (Cons c m)
  then obtain l ls' where ls: "ls = l # ls'" "lower_char c = l" "map lower_char m = ls'" by auto
  have "upper_char c = [char_of ((of_char l :: int) - 32)]"
    using upper_of_lower_char [OF ls(2)] Cons.prems(2) ls(1) by simp
  moreover have "upper m = map (\<lambda>l. char_of ((of_char l :: int) - 32)) ls'"
    using Cons.IH [OF ls(3)] Cons.prems(2) ls(1) by simp
  ultimately show ?case using ls(1) by (simp add: upper_def)
qed

lemma upper_append: "upper (a @ b) = upper a @ upper b"
  by (simp add: upper_def)

lemma map_eq_appendD:
  "map f xs = ys @ zs \<Longrightarrow> \<exists>us vs. xs = us @ vs \<and> map f us = ys \<and> map f vs = zs"
  by (auto simp: map_eq_append_conv)

lemma ferias_lower_upper:
  assumes "str_in ''ferias'' (lower n)"
  shows "str_in ''FERIAS'' (upper n)"
proof -
  from assms have "\<exists>p q. lower n = p @ ''ferias'' @ q" by (simp only: str_in_iff)
  then obtain p q where "lower n = p @ ''ferias'' @ q" by (elim exE)
  then have "map lower_char n = p @ (''ferias'' @ q)" by (simp only: lower_def)
  then have "\<exists>us vs. n = us @ vs \<and> map lower_char us = p \<and> map lower_char vs = ''ferias'' @ q"
    by (rule map_eq_appendD)
  then obtain n1 n23 where n1: "n = n1 @ n23" "map lower_char n23 = ''ferias'' @ q"
    by (elim exE conjE) (rule that; assumption)
  from n1(2) have "\<exists>us vs. n23 = us @ vs \<and> map lower_char us = ''ferias'' \<and> map lower_char vs = q"
    by (rule map_eq_appendD)
  then obtain n2 n3 where n2: "n23 = n2 @ n3" "map lower_char n2 = ''ferias''"
    by (elim exE conjE) (rule that; assumption)
  have "upper n2 = map (\<lambda>l. char_of ((of_char l :: int) - 32)) ''ferias''"
    by (rule upper_of_lower [OF n2(2)]) simp
  also have "\<dots> = ''FERIAS''" by (simp add: char_of_def)
  finally have e: "upper n = upper n1 @ ''FERIAS'' @ upper n3"
    unfolding n1(1) n2(1) by (simp only: upper_append)
  show ?thesis unfolding str_in_iff
    by (rule exI [of _ "upper n1"], rule exI [of _ "upper n3"], rule e)
qed

text \<open>
  C5, as the code has it. When the directory, named by a path that is not empty, does not
  exist, ingestion returns the empty mapping; the pre-check is what fails with \<open>FileNotFoundError\<close>, and with it the
  generate operation, which runs the pre-check before ingestion.
\<close>

theorem diretorio_inexistente:
  assumes "dirs f d = None" and "d \<noteq> []"
  shows "carregar_bases f d = Inr []
       \<and> validate_input_dir f d = Inl (FileNotFoundError (msg_pasta d))
       \<and> gerar_vr_mensal_tool pn ns f d mes ano regra nome_saida = Inl (FileNotFoundError (msg_pasta d))"
  using assms
  by (simp add: carregar_bases_def glob_xlsx_def validate_input_dir_def listdir_def
      gerar_vr_mensal_tool_def)

theorem diretorio_inexistente_witness:
  "dirs (exemplo_fs nomes_acentuados) ''saidas'' = None \<and> ''saidas'' \<noteq> []
   \<and> carregar_bases (exemplo_fs nomes_acentuados) ''saidas'' = Inr []
   \<and> validate_input_dir (exemplo_fs nomes_acentuados) ''saidas'' = Inl (FileNotFoundError (msg_pasta ''saidas''))
   \<and> gerar_vr_mensal_tool (\<lambda>s. None) (\<lambda>q. ''0'') (exemplo_fs nomes_acentuados) ''saidas'' 8 2025 ''integral'' None
       = Inl (FileNotFoundError (msg_pasta ''saidas''))"
proof -
  have h: "dirs (exemplo_fs nomes_acentuados) ''saidas'' = None" by (simp add: exemplo_fs_def)
  have n: "''saidas'' \<noteq> []" by simp
  show ?thesis using h n diretorio_inexistente [OF h n] by simp
qed

text \<open>The claim C5 as stated fails: on a directory that does not exist ingestion returns.\<close>

theorem carregar_bases_sem_pasta_counterexample:
  "listdir (exemplo_fs []) ''entrada_errada'' = None
   \<and> carregar_bases (exemplo_fs []) ''entrada_errada'' = Inr []"
  by (simp add: exemplo_fs_def listdir_def carregar_bases_def glob_xlsx_def)





text \<open>
  C10. In a directory that exists, with a workbook whose lower-case name holds
  \<open>ativos\<close> and one whose lower-case name holds \<open>desligados\<close>, but none whose
  lower-case name holds \<open>ferias\<close> spelt with the accented e (\<open>CHR 0xE9\<close>),
  the pre-check raises \<open>FileNotFoundError\<close> with the message that names the accented
  hint. Yet a name that holds the plain \<open>ferias\<close> in any case, and not \<open>ATIVOS\<close>, is
  what ingestion stores as the vacation table.
\<close>

theorem precheck_exige_acento:
  assumes "listdir f d = Some names"
    and "list_ex (\<lambda>n. ends_with ''.xlsx'' (lower n) \<and> str_in ''ativos'' (lower n)) names"
    and "list_ex (\<lambda>n. ends_with ''.xlsx'' (lower n) \<and> str_in ''desligados'' (lower n)) names"
    and "\<not> list_ex (\<lambda>n. ends_with ''.xlsx'' (lower n) \<and> str_in (''f'' @ [CHR 0xE9] @ ''rias'') (lower n)) names"
  shows "validate_input_dir f d
           = Inl (FileNotFoundError (msg_hint (''F'' @ [CHR 0xC9] @ ''RIAS'') d))
       \<and> (\<forall>n. str_in ''ferias'' (lower n) \<and> \<not> str_in ''ATIVOS'' (upper n)
              \<longrightarrow> papel (upper n) = Some ''FERIAS'')"
proof -
  let ?fls = "map lower (filter (\<lambda>n. ends_with ''.xlsx'' (lower n)) names)"
  have la: "lower ''ATIVOS'' = ''ativos''" and ld: "lower ''DESLIGADOS'' = ''desligados''"
    and lf: "lower (''F'' @ [CHR 0xC9] @ ''RIAS'') = ''f'' @ [CHR 0xE9] @ ''rias''"
    by (simp_all add: lower_def lower_char_def char_of_def)
  have ex: "list_ex (\<lambda>x. str_in s x) ?fls
      \<longleftrightarrow> list_ex (\<lambda>n. ends_with ''.xlsx'' (lower n) \<and> str_in s (lower n)) names" for s
    by (auto simp: list_ex_iff)
  have ok: "list_all (\<lambda>h. list_ex (\<lambda>x. str_in (lower h) x) ?fls) [''ATIVOS'', ''DESLIGADOS'']"
    using assms(2,3) by (simp add: la ld ex)
  have no: "\<not> list_ex (\<lambda>x. str_in (lower (''F'' @ [CHR 0xC9] @ ''RIAS'')) x) ?fls"
    using assms(4) by (simp only: lf ex not_False_eq_True)
  have "check_hints ([''ATIVOS'', ''DESLIGADOS''] @ (''F'' @ [CHR 0xC9] @ ''RIAS'') # []) ?fls d
      = Inl (FileNotFoundError (msg_hint (''F'' @ [CHR 0xC9] @ ''RIAS'') d))"
    by (rule check_hints_fail [OF ok no])
  then have c1: "validate_input_dir f d
           = Inl (FileNotFoundError (msg_hint (''F'' @ [CHR 0xC9] @ ''RIAS'') d))"
    using assms(1) by (simp add: validate_input_dir_def required_files_hints_def)
  have c2: "\<forall>n. str_in ''ferias'' (lower n) \<and> \<not> str_in ''ATIVOS'' (upper n)
              \<longrightarrow> papel (upper n) = Some ''FERIAS''"
    using ferias_lower_upper by (simp add: papel_def)
  show ?thesis by (intro conjI c1 c2)
qed

lemma sem_acento_eval:
  "listdir (exemplo_fs nomes_sem_acento) ''entradas'' = Some nomes_sem_acento"
  "map lower nomes_sem_acento = nomes_sem_acento"
  "map upper nomes_sem_acento = [''ATIVOS.XLSX'', ''FERIAS 2025.XLSX'', ''DESLIGADOS.XLSX'']"
  by (simp_all add: exemplo_fs_def listdir_def nomes_sem_acento_def lower_def lower_char_def
      upper_def upper_char_def char_of_def)

theorem precheck_exige_acento_witness:
  "listdir (exemplo_fs nomes_sem_acento) ''entradas'' = Some nomes_sem_acento
   \<and> list_ex (\<lambda>n. ends_with ''.xlsx'' (lower n) \<and> str_in ''ativos'' (lower n)) nomes_sem_acento
   \<and> list_ex (\<lambda>n. ends_with ''.xlsx'' (lower n) \<and> str_in ''desligados'' (lower n)) nomes_sem_acento
   \<and> list_ex (\<lambda>n. ends_with ''.xlsx'' (lower n) \<and> str_in ''ferias'' (lower n)) nomes_sem_acento
   \<and> \<not> list_ex (\<lambda>n. ends_with ''.xlsx'' (lower n) \<and> str_in (''f'' @ [CHR 0xE9] @ ''rias'') (lower n)) nomes_sem_acento
   \<and> validate_input_dir (exemplo_fs nomes_sem_acento) ''entradas''
       = Inl (FileNotFoundError (msg_hint (''F'' @ [CHR 0xC9] @ ''RIAS'') ''entradas''))
   \<and> papel (upper ''ferias 2025.xlsx'') = Some ''FERIAS''
   \<and> map fst (projr (carregar_bases (exemplo_fs nomes_sem_acento) ''entradas'')) = [''ATIVOS'', ''FERIAS'', ''DESLIGADOS'']"
proof -
  have l: "lower ''ativos.xlsx'' = ''ativos.xlsx''" "lower ''ferias 2025.xlsx'' = ''ferias 2025.xlsx''"
    "lower ''desligados.xlsx'' = ''desligados.xlsx''"
    using sem_acento_eval(2) by (simp_all add: nomes_sem_acento_def)
  have h2: "list_ex (\<lambda>n. ends_with ''.xlsx'' (lower n) \<and> str_in ''ativos'' (lower n)) nomes_sem_acento"
    and h3: "list_ex (\<lambda>n. ends_with ''.xlsx'' (lower n) \<and> str_in ''desligados'' (lower n)) nomes_sem_acento"
    and h5: "list_ex (\<lambda>n. ends_with ''.xlsx'' (lower n) \<and> str_in ''ferias'' (lower n)) nomes_sem_acento"
    and h4: "\<not> list_ex (\<lambda>n. ends_with ''.xlsx'' (lower n) \<and> str_in (''f'' @ [CHR 0xE9] @ ''rias'') (lower n)) nomes_sem_acento"
    by (simp_all add: nomes_sem_acento_def l ends_with_def)
  note th = precheck_exige_acento [OF sem_acento_eval(1) h2 h3 h4]
  have u: "upper ''ferias 2025.xlsx'' = ''FERIAS 2025.XLSX''"
    using sem_acento_eval(3) by (simp add: nomes_sem_acento_def)
  have p: "papel (upper ''ferias 2025.xlsx'') = Some ''FERIAS''"
    using th [THEN conjunct2, THEN spec, of "''ferias 2025.xlsx''"] l(2) u by simp
  have c: "map fst (projr (carregar_bases (exemplo_fs nomes_sem_acento) ''entradas'')) = [''ATIVOS'', ''FERIAS'', ''DESLIGADOS'']"
    using sem_acento_eval(3)
    by (simp add: carregar_bases_def glob_xlsx_def exemplo_fs_def nomes_sem_acento_def ends_with_def
        path_join_def basename_def read_excel_def exemplo_wbs_def Let_def papel_def)
  show ?thesis by (intro conjI sem_acento_eval(1) h2 h3 h5 h4 th [THEN conjunct1] p c)
qed

section \<open>Generating the workbook: lemmas\<close>

lemma montar_total:
  assumes "montar_base_elegiveis ns bases ctx = Inr t" "r \<in> set (rows t)"
  shows "\<exists>d. r ''DIAS'' = Num d \<and> r ''TOTAL'' = Num (d * 30)"
proof -
  let ?A = "dict_get bases ''ATIVOS'' empty_df" and ?F = "dict_get bases ''FERIAS'' empty_df"
  obtain a r2 a1 a2 where
    d: "r ''TOTAL'' = cell_times (r2 ''DIAS'') (Num 30)"
    "\<And>c. c \<notin> {''VALOR_DIARIO_VR'', ''TOTAL'', ''SINDICATO'', ''ESTADO''} \<Longrightarrow> r c = r2 c"
    "\<not> tem_ferias ?A ?F \<Longrightarrow> r2 ''DIAS'' = Num 22"
    "tem_ferias ?A ?F \<Longrightarrow> registros_ferias ?F r = [] \<Longrightarrow> r2 ''DIAS'' = Num 22"
    "tem_ferias ?A ?F \<Longrightarrow> registros_ferias ?F r \<noteq> [] \<Longrightarrow>
       \<exists>f \<in> set (registros_ferias ?F r). r2 ''DIAS'' = Num (22 - dias_registrados f)"
    using montar_row [OF assms] by metis
  have "\<exists>q. r2 ''DIAS'' = Num q"
    using d(3,4,5) by (cases "tem_ferias ?A ?F"; cases "registros_ferias ?F r = []") auto
  then obtain q where q: "r2 ''DIAS'' = Num q" by blast
  have "r ''DIAS'' = r2 ''DIAS''" using d(2) [of "''DIAS''"] by simp
  then show ?thesis using q d(1) by (simp add: cell_times_def)
qed

lemma montar_columns_total:
  assumes "montar_base_elegiveis ns bases ctx = Inr t"
  shows "''TOTAL'' \<in> set (columns t)"
proof -
  obtain a1 a2 where "t = sindicato_e_estado ns (valor_e_total a2)"
    using montar_stages [OF assms] by blast
  then show ?thesis
    by (simp add: sindicato_e_estado_def valor_e_total_def columns_set_col)
qed

lemma write_sheet_other_head:
  "k \<noteq> n \<Longrightarrow> \<exists>rest. write_sheet k t ((n, u) # wb) = (n, u) # rest"
  by simp

lemma foldl_write_sheet_head:
  "n \<notin> fst ` set bases \<Longrightarrow>
   \<exists>rest. foldl (\<lambda>wb (k, df). write_sheet k df wb) ((n, u) # wb) bases = (n, u) # rest"
proof (induction bases arbitrary: wb)
  case Nil
  then show ?case by simp
next
  case (Cons kv bases)
  obtain k v where kv: "kv = (k, v)" by (cases kv)
  have "k \<noteq> n" and rest: "n \<notin> fst ` set bases" using Cons.prems kv by auto
  then show ?case using Cons.IH [OF rest] kv by simp
qed

lemma retry_dict_montar:
  "retry_dict (montar_base_elegiveis ns bases) ctx ctx = montar_base_elegiveis ns bases ctx"
  by (cases "montar_base_elegiveis ns bases ctx") (auto simp: retry_dict_def split: error.splits)

lemma retry_dict_same:
  "retry_dict call ctx ctx = Inr x \<Longrightarrow> call ctx = Inr x"
  by (cases "call ctx") (auto simp: retry_dict_def split: error.splits if_splits)

lemma exportar_first_sheet:
  assumes "exportar_planilha pn f base bases ctx out = Inr f1"
    and "fst ` set bases \<subseteq> {''ATIVOS'', ''FERIAS'', ''DESLIGADOS''}"
  shows "\<exists>rest. files f1 out = Some ((''VR Mensal'', base) # rest)"
proof -
  obtain v where v: "gerar_validacoes pn base = Inr v"
    and f1: "f1 = f\<lparr>files := (files f)(out \<mapsto>
                 write_sheet validacoes_name v
                   (foldl (\<lambda>wb (k, df). write_sheet k df wb) [(''VR Mensal'', base)] bases))\<rparr>"
    using assms(1) by (auto simp: exportar_planilha_def split: sum.splits)
  have "''VR Mensal'' \<notin> fst ` set bases" using assms(2) by auto
  then obtain rest where
    "foldl (\<lambda>wb (k, df). write_sheet k df wb) [(''VR Mensal'', base)] bases = (''VR Mensal'', base) # rest"
    using foldl_write_sheet_head [of "''VR Mensal''" bases base "[]"] by blast
  moreover have "validacoes_name \<noteq> ''VR Mensal''" by (simp add: validacoes_name_def)
  ultimately show ?thesis using f1 by simp
qed

lemma aplicar_80_20_rows:
  assumes "''TOTAL'' \<in> set (columns df)" "r \<in> set (rows (aplicar_80_20 pn df))"
  obtains r0 where "r0 \<in> set (rows df)" "r ''TOTAL'' = r0 ''TOTAL''"
    "r ''Custo empresa'' = Num (num0 pn (r0 ''TOTAL'') * (4/5))"
    "r ''Desconto profissional'' = Num (num0 pn (r0 ''TOTAL'') * (1/5))"
  using assms by (auto simp: aplicar_80_20_def rows_set_col)


lemma exemplo_headers:
  "normalize_col (''Matr'' @ [CHR 0xED] @ ''cula'') = ''MATRICULA''"
  "normalize_col ''Empresa'' = ''EMPRESA''"
  "normalize_col (''Dias de  F'' @ [CHR 0xE9] @ ''rias'') = ''DIAS_DE_FERIAS''"
  by (simp_all add: normalize_col_def text_eval)

lemma exemplo_nomes:
  "map lower nomes_acentuados = [''ativos.xlsx'', ''f'' @ [CHR 0xE9] @ ''rias.xlsx'', ''desligados.xlsx'']"
  "map upper nomes_acentuados = [''ATIVOS.XLSX'', ''F'' @ [CHR 0xC9] @ ''RIAS.XLSX'', ''DESLIGADOS.XLSX'']"
  by (simp_all add: nomes_acentuados_def text_eval)

lemma exemplo_precheck: "validate_input_dir (exemplo_fs nomes_acentuados) ''entradas'' = Inr ()"
  using exemplo_nomes(1)
  by (simp add: validate_input_dir_def listdir_def exemplo_fs_def nomes_acentuados_def
      ends_with_def required_files_hints_def text_eval)

lemma exemplo_carregar:
  "\<exists>bases. carregar_bases (exemplo_fs nomes_acentuados) ''entradas'' = Inr bases
     \<and> map fst bases = [''ATIVOS'', ''FERIAS'', ''DESLIGADOS'']
     \<and> map (\<lambda>(k, t). columns t) bases = [[''MATRICULA'', ''EMPRESA''], [''MATRICULA'', ''DIAS_DE_FERIAS''], [''MATRICULA'']]"
  using exemplo_nomes(2)
  by (simp add: carregar_bases_def glob_xlsx_def exemplo_fs_def nomes_acentuados_def ends_with_def
      path_join_def basename_def read_excel_def exemplo_wbs_def Let_def papel_def set_columns_def normalize_cols_def
      exemplo_headers [simplified])

lemmas gerar_eval = gerar_vr_mensal_tool_def make_contexto_def first_of_month_def last_day_def
  leap_year_def default_out_def fmt_02d_def retry_dict_def exportar_planilha_def
  gerar_validacoes_def cost_cols_def check_cols_def validacoes_name_def is_str_def cell_neg_def
  check_row_def aplicar_80_20_no_arquivo_def aplicar_80_20_wb_def aplicar_80_20_def num0_def

lemma show_nat_8: "show_nat 8 = ''8''" and show_nat_2025: "show_nat 2025 = ''2025''"
  by (simp_all add: char_of_def)

lemma exemplo_gerar:
  "\<exists>f2 df rest.
     gerar_vr_mensal_tool (\<lambda>s. None) (\<lambda>q. ''0'') (exemplo_fs nomes_acentuados) ''entradas'' 8 2025
       ''integral'' None = Inr (f2, ''VR_MENSAL_08_2025.xlsx'')
     \<and> files f2 ''VR_MENSAL_08_2025.xlsx'' = Some ((''VR Mensal'', df) # rest)
     \<and> map (\<lambda>r. map r [''MATRICULA'', ''TOTAL'', ''Custo empresa'', ''Desconto profissional'']) (rows df)
         = [[Num 1, Num 660, Num 528, Num 132], [Num 2, Num 360, Num 288, Num 72]]"
  using exemplo_nomes(2)
  apply (simp add: gerar_vr_mensal_tool_def exemplo_precheck make_contexto_def first_of_month_def
      default_out_def fmt_02d_def show_nat_8 show_nat_2025)
  apply (simp add: gerar_eval
      carregar_bases_def glob_xlsx_def exemplo_fs_def nomes_acentuados_def ends_with_def
      path_join_def basename_def read_excel_def exemplo_wbs_def Let_def papel_def set_columns_def normalize_cols_def
      exemplo_headers [simplified] builder_eval char_of_def)
  done

text \<open>
  C1. When the generate operation completes, the output file's first sheet is
  \<open>VR Mensal\<close>, and every row of it has a number \<open>t\<close> as \<open>TOTAL\<close>, four fifths of
  \<open>t\<close> as \<open>Custo empresa\<close> and one fifth of \<open>t\<close> as \<open>Desconto profissional\<close>, so
  both are within the tolerance 0.01 of 0.8 and 0.2 times \<open>TOTAL\<close>.
\<close>

theorem gerar_80_20:
  assumes "gerar_vr_mensal_tool pn ns f input_dir mes ano regra nome_saida = Inr (f2, out)"
  shows "\<exists>df rest. files f2 out = Some ((''VR Mensal'', df) # rest)
           \<and> (\<forall>r \<in> set (rows df). \<exists>t.
                 r ''TOTAL'' = Num t
               \<and> r ''Custo empresa'' = Num (t * (4/5))
               \<and> r ''Desconto profissional'' = Num (t * (1/5))
               \<and> \<bar>num0 pn (r ''Custo empresa'') - (4/5) * t\<bar> \<le> 1/100
               \<and> \<bar>num0 pn (r ''Desconto profissional'') - (1/5) * t\<bar> \<le> 1/100)"
proof -
  from assms obtain ctx bases base f1 where
    bases: "carregar_bases f input_dir = Inr bases"
    and base: "retry_dict (montar_base_elegiveis ns bases) ctx ctx = Inr base"
    and f1: "retry_dict (\<lambda>c. exportar_planilha pn f base bases c out) ctx ctx = Inr f1"
    and f2: "aplicar_80_20_no_arquivo pn f1 out = Inr f2"
    by (auto simp: gerar_vr_mensal_tool_def Let_def split: sum.splits if_splits)
  have m: "montar_base_elegiveis ns bases ctx = Inr base" using base by (simp add: retry_dict_montar)
  have e: "exportar_planilha pn f base bases ctx out = Inr f1" by (rule retry_dict_same [OF f1])
  obtain rest where r1: "files f1 out = Some ((''VR Mensal'', base) # rest)"
    using exportar_first_sheet [OF e carregar_bases_keys [OF bases]] by blast
  have r2: "files f2 out = Some ((''VR Mensal'', aplicar_80_20 pn base) # rest)"
    using f2 r1 by (auto simp: aplicar_80_20_no_arquivo_def aplicar_80_20_wb_def)
  have rows: "\<exists>t. r ''TOTAL'' = Num t
               \<and> r ''Custo empresa'' = Num (t * (4/5))
               \<and> r ''Desconto profissional'' = Num (t * (1/5))
               \<and> \<bar>num0 pn (r ''Custo empresa'') - (4/5) * t\<bar> \<le> 1/100
               \<and> \<bar>num0 pn (r ''Desconto profissional'') - (1/5) * t\<bar> \<le> 1/100"
    if r: "r \<in> set (rows (aplicar_80_20 pn base))" for r
  proof -
    obtain r0 where r0: "r0 \<in> set (rows base)" "r ''TOTAL'' = r0 ''TOTAL''"
      "r ''Custo empresa'' = Num (num0 pn (r0 ''TOTAL'') * (4/5))"
      "r ''Desconto profissional'' = Num (num0 pn (r0 ''TOTAL'') * (1/5))"
      using aplicar_80_20_rows [OF montar_columns_total [OF m] r] by blast
    obtain d where d: "r0 ''TOTAL'' = Num (d * 30)" using montar_total [OF m r0(1)] by blast
    show ?thesis using r0 d by (simp add: num0_def)
  qed
  show ?thesis using r2 rows by blast
qed

theorem gerar_80_20_witness:
  "\<exists>f2 df rest.
     gerar_vr_mensal_tool (\<lambda>s. None) (\<lambda>q. ''0'') (exemplo_fs nomes_acentuados) ''entradas'' 8 2025
       ''integral'' None = Inr (f2, ''VR_MENSAL_08_2025.xlsx'')
     \<and> files f2 ''VR_MENSAL_08_2025.xlsx'' = Some ((''VR Mensal'', df) # rest)
     \<and> map (\<lambda>r. map r [''MATRICULA'', ''TOTAL'', ''Custo empresa'', ''Desconto profissional'']) (rows df)
         = [[Num 1, Num 660, Num 528, Num 132], [Num 2, Num 360, Num 288, Num 72]]
     \<and> (\<forall>r \<in> set (rows df). \<exists>t.
                 r ''TOTAL'' = Num t
               \<and> r ''Custo empresa'' = Num (t * (4/5))
               \<and> r ''Desconto profissional'' = Num (t * (1/5))
               \<and> \<bar>num0 (\<lambda>s. None) (r ''Custo empresa'') - (4/5) * t\<bar> \<le> 1/100
               \<and> \<bar>num0 (\<lambda>s. None) (r ''Desconto profissional'') - (1/5) * t\<bar> \<le> 1/100)"
proof -
  obtain f2 df rest where
    run: "gerar_vr_mensal_tool (\<lambda>s. None) (\<lambda>q. ''0'') (exemplo_fs nomes_acentuados) ''entradas'' 8 2025
       ''integral'' None = Inr (f2, ''VR_MENSAL_08_2025.xlsx'')"
    and fl: "files f2 ''VR_MENSAL_08_2025.xlsx'' = Some ((''VR Mensal'', df) # rest)"
    and vals: "map (\<lambda>r. map r [''MATRICULA'', ''TOTAL'', ''Custo empresa'', ''Desconto profissional'']) (rows df)
         = [[Num 1, Num 660, Num 528, Num 132], [Num 2, Num 360, Num 288, Num 72]]"
    using exemplo_gerar by (elim exE conjE) (rule that; assumption)
  obtain df' rest' where
    fl': "files f2 ''VR_MENSAL_08_2025.xlsx'' = Some ((''VR Mensal'', df') # rest')"
    and ok: "\<forall>r \<in> set (rows df'). \<exists>t.
                 r ''TOTAL'' = Num t
               \<and> r ''Custo empresa'' = Num (t * (4/5))
               \<and> r ''Desconto profissional'' = Num (t * (1/5))
               \<and> \<bar>num0 (\<lambda>s. None) (r ''Custo empresa'') - (4/5) * t\<bar> \<le> 1/100
               \<and> \<bar>num0 (\<lambda>s. None) (r ''Desconto profissional'') - (1/5) * t\<bar> \<le> 1/100"
    using gerar_80_20 [OF run] by (elim exE conjE) (rule that; assumption)
  have "df' = df" using fl fl' by simp
  then have ok': "\<forall>r \<in> set (rows df). \<exists>t.
                 r ''TOTAL'' = Num t
               \<and> r ''Custo empresa'' = Num (t * (4/5))
               \<and> r ''Desconto profissional'' = Num (t * (1/5))
               \<and> \<bar>num0 (\<lambda>s. None) (r ''Custo empresa'') - (4/5) * t\<bar> \<le> 1/100
               \<and> \<bar>num0 (\<lambda>s. None) (r ''Desconto profissional'') - (1/5) * t\<bar> \<le> 1/100"
    using ok by simp
  show ?thesis
    by (rule exI [of _ f2], rule exI [of _ df], rule exI [of _ rest]) (intro conjI run fl vals ok')
qed


section \<open>The validator: lemmas\<close>

lemma sum_list_scaled:
  "list_all (\<lambda>r. g r = h r * (k :: rat)) xs \<Longrightarrow> sum_list (map g xs) = sum_list (map h xs) * k"
  by (induction xs) (auto simp: algebra_simps)

lemma soma_scaled:
  "list_all (\<lambda>r. num0 pn (r c) = num0 pn (r ''TOTAL'') * k) (rows df) \<Longrightarrow>
   soma pn c df = soma pn ''TOTAL'' df * k"
  unfolding soma_def by (rule sum_list_scaled)

text \<open>
  C4. The aggregate check as the code computes it, against the claim's formula. On a
  sheet that has the three columns, where every row splits exactly and the totals sum to
  \<open>S\<close> below 1, with a tolerance from 0 to below \<open>0.8 * (1 - S)\<close>: the code reports
  the aggregate failure and nothing else, its company-cost flag false, because it compares
  the sums with 0.8 and 0.2 of \<open>max 1 S\<close>; the claim's inequalities, which compare
  them with 0.8 and 0.2 of \<open>S\<close>, hold.
\<close>

theorem agregado_alvo_com_piso:
  assumes "list_all (\<lambda>c. c \<in> set (columns df)) cost_cols"
    and "list_all (\<lambda>r. num0 pn (r ''Custo empresa'') = num0 pn (r ''TOTAL'') * (4/5)) (rows df)"
    and "list_all (\<lambda>r. num0 pn (r ''Desconto profissional'') = num0 pn (r ''TOTAL'') * (1/5)) (rows df)"
    and "soma pn ''TOTAL'' df < 1"
    and "0 \<le> tol" and "tol < (4/5) * (1 - soma pn ''TOTAL'' df)"
  shows "issues_of pn tol df = [Agregado False ((1/5) * (1 - soma pn ''TOTAL'' df) \<le> tol)]
       \<and> \<bar>soma pn ''Custo empresa'' df - (4/5) * soma pn ''TOTAL'' df\<bar>
             \<le> tol * max 1 (soma pn ''TOTAL'' df)
       \<and> \<bar>soma pn ''Desconto profissional'' df - (1/5) * soma pn ''TOTAL'' df\<bar>
             \<le> tol * max 1 (soma pn ''TOTAL'' df)"
proof -
  let ?S = "soma pn ''TOTAL'' df"
  have ce: "soma pn ''Custo empresa'' df = ?S * (4/5)" by (rule soma_scaled [OF assms(2)])
  have dp: "soma pn ''Desconto profissional'' df = ?S * (1/5)" by (rule soma_scaled [OF assms(3)])
  have mx: "max 1 ?S = 1" using assms(4) by simp
  have ce_ok: "list_all (\<lambda>r. \<bar>num0 pn (r ''Custo empresa'') - num0 pn (r ''TOTAL'') * (4/5)\<bar> \<le> tol) (rows df)"
    using assms(2,5) by (auto simp: list_all_iff)
  have dp_ok: "list_all (\<lambda>r. \<bar>num0 pn (r ''Desconto profissional'') - num0 pn (r ''TOTAL'') * (1/5)\<bar> \<le> tol) (rows df)"
    using assms(3,5) by (auto simp: list_all_iff)
  have ce_sum: "\<not> \<bar>?S * (4/5) - 1 * (4/5)\<bar> \<le> tol * 1" using assms(4,6) by simp
  have dp_sum: "(\<bar>?S * (1/5) - 1 * (1/5)\<bar> \<le> tol * 1) = ((1/5) * (1 - ?S) \<le> tol)"
    using assms(4) by auto
  have c1: "issues_of pn tol df = [Agregado False ((1/5) * (1 - ?S) \<le> tol)]"
    using assms(1) ce_ok dp_ok ce_sum dp_sum by (simp add: issues_of_def Let_def ce dp mx)
  have c2: "\<bar>soma pn ''Custo empresa'' df - (4/5) * ?S\<bar> \<le> tol * max 1 ?S"
    using assms(5) by (simp add: ce mx)
  have c3: "\<bar>soma pn ''Desconto profissional'' df - (1/5) * ?S\<bar> \<le> tol * max 1 ?S"
    using assms(5) by (simp add: dp mx)
  show ?thesis by (intro conjI c1 c2 c3)
qed

theorem agregado_alvo_com_piso_witness:
  "list_all (\<lambda>c. c \<in> set (columns folha_zero)) cost_cols
   \<and> list_all (\<lambda>r. num0 (\<lambda>s. None) (r ''Custo empresa'') = num0 (\<lambda>s. None) (r ''TOTAL'') * (4/5)) (rows folha_zero)
   \<and> list_all (\<lambda>r. num0 (\<lambda>s. None) (r ''Desconto profissional'') = num0 (\<lambda>s. None) (r ''TOTAL'') * (1/5)) (rows folha_zero)
   \<and> soma (\<lambda>s. None) ''TOTAL'' folha_zero = 0
   \<and> issues_of (\<lambda>s. None) (1/100) folha_zero = [Agregado False False]
   \<and> \<bar>soma (\<lambda>s. None) ''Custo empresa'' folha_zero - (4/5) * soma (\<lambda>s. None) ''TOTAL'' folha_zero\<bar>
         \<le> (1/100) * max 1 (soma (\<lambda>s. None) ''TOTAL'' folha_zero)
   \<and> \<bar>soma (\<lambda>s. None) ''Desconto profissional'' folha_zero - (1/5) * soma (\<lambda>s. None) ''TOTAL'' folha_zero\<bar>
         \<le> (1/100) * max 1 (soma (\<lambda>s. None) ''TOTAL'' folha_zero)"
proof -
  have h1: "list_all (\<lambda>c. c \<in> set (columns folha_zero)) cost_cols"
    by (simp add: folha_zero_def cost_cols_def)
  have h2: "list_all (\<lambda>r. num0 (\<lambda>s. None) (r ''Custo empresa'') = num0 (\<lambda>s. None) (r ''TOTAL'') * (4/5)) (rows folha_zero)"
    and h3: "list_all (\<lambda>r. num0 (\<lambda>s. None) (r ''Desconto profissional'') = num0 (\<lambda>s. None) (r ''TOTAL'') * (1/5)) (rows folha_zero)"
    by (simp_all add: folha_zero_def row_of_cells_def num0_def)
  have s: "soma (\<lambda>s. None) ''TOTAL'' folha_zero = 0"
    by (simp add: soma_def folha_zero_def row_of_cells_def num0_def)
  have h4: "soma (\<lambda>s. None) ''TOTAL'' folha_zero < 1" and h5: "(0::rat) \<le> 1/100"
    and h6: "(1/100 :: rat) < (4/5) * (1 - soma (\<lambda>s. None) ''TOTAL'' folha_zero)"
    by (simp_all add: s)
  note th = agregado_alvo_com_piso [OF h1 h2 h3 h4 h5 h6]
  have c1: "issues_of (\<lambda>s. None) (1/100) folha_zero = [Agregado False False]"
    using th [THEN conjunct1] by (simp add: s)
  show ?thesis by (intro conjI h1 h2 h3 s c1 th [THEN conjunct2, THEN conjunct1] th [THEN conjunct2, THEN conjunct2])
qed

lemma write_sheet_idem: "write_sheet n t (write_sheet n t' wb) = write_sheet n t wb"
  by (induction wb) auto

lemma write_sheet_names: "n \<in> set (map fst (write_sheet n t wb))"
  by (induction wb) force+

lemma find_write_sheet:
  "\<not> P n \<Longrightarrow> find (\<lambda>(s, t). P s) (write_sheet n x wb) = find (\<lambda>(s, t). P s) wb"
  by (induction wb) auto

lemma validacoes_name_not_vr: "\<not> str_in ''vr mensal'' (lower validacoes_name)"
  by (simp add: validacoes_name_def lower_def lower_char_def char_of_def)

lemma pick_sheet_write:
  assumes "pick_sheet wb = Inr (a, t)" "a \<noteq> validacoes_name"
  shows "pick_sheet (write_sheet validacoes_name x wb) = Inr (a, t)"
proof (cases wb)
  case Nil
  then show ?thesis using assms(1) by (simp add: pick_sheet_def)
next
  case (Cons first rest)
  obtain n u where first: "first = (n, u)" by (cases first)
  let ?P = "\<lambda>s. str_in ''vr mensal'' (lower s)"
  have fnd: "find (\<lambda>(s, t). ?P s) (write_sheet validacoes_name x wb) = find (\<lambda>(s, t). ?P s) wb"
    by (rule find_write_sheet [of ?P validacoes_name, OF validacoes_name_not_vr])
  obtain w ws where w: "write_sheet validacoes_name x wb = w # ws"
    using Cons first by (cases "n = validacoes_name") auto
  show ?thesis
  proof (cases "find (\<lambda>(s, t). ?P s) wb")
    case (Some st)
    then show ?thesis using assms(1) Cons fnd w by (simp add: pick_sheet_def)
  next
    case None
    then have "(a, t) = (n, u)" using assms(1) Cons first by (simp add: pick_sheet_def)
    then have "n \<noteq> validacoes_name" using assms(2) by simp
    then have "w = (a, t)" using w Cons first \<open>(a, t) = (n, u)\<close> by simp
    then show ?thesis using None fnd w by (simp add: pick_sheet_def)
  qed
qed

text \<open>The validator's result when the checked sheet has the three cost columns.\<close>

lemma validar_sem_reforco:
  assumes "files f g = Some wb" "files f m = Some wbm"
    and "pick_sheet wbm = Inr (am, dfm)" "pick_sheet wb = Inr (a, df)"
    and "list_all (\<lambda>c. c \<in> set (columns df)) cost_cols"
  shows "validar_conformidade_tool pn f g m ref tol =
     (let rep = \<lparr>arquivo = g, aba_modelo = am,
                 faltantes = filter (\<lambda>c. c \<notin> set (columns df)) (columns dfm),
                 extras = filter (\<lambda>c. c \<notin> set (columns dfm)) (columns df),
                 issues_80_20 = issues_of pn tol df, negativos = negativos_of pn df\<rparr>;
          tem = (case ref of None \<Rightarrow> False
                 | Some p \<Rightarrow> (case files f p of None \<Rightarrow> False
                               | Some w \<Rightarrow> validacoes_name \<in> set (map fst w)))
      in Inr (rep, f\<lparr>files := (files f)(g \<mapsto> write_sheet validacoes_name (resumo rep tem) wb)\<rparr>))"
proof -
  have same: "(files f)(g \<mapsto> wb) = files f" using assms(1) by (auto simp: fun_eq_iff)
  show ?thesis
    using assms by (cases ref) (simp_all add: validar_conformidade_tool_def Let_def same)
qed

text \<open>
  C7, as the code has it. When the sheet the validator checks is not the validations sheet
  and already has the three cost columns, so that the run does no reinforcement, and the
  reference workbook, if it is the generated file itself, already has a validations
  sheet: a second run on the file system the first run leaves gives the same report and
  leaves the same file system.
\<close>

theorem validar_idempotente:
  assumes "validar_conformidade_tool pn f g m ref tol = Inr (rep, f1)"
    and "files f g = Some wb" and "pick_sheet wb = Inr (a, df)"
    and "a \<noteq> validacoes_name"
    and "list_all (\<lambda>c. c \<in> set (columns df)) cost_cols"
    and "ref = Some g \<Longrightarrow> validacoes_name \<in> set (map fst wb)"
  shows "validar_conformidade_tool pn f1 g m ref tol = Inr (rep, f1)"
proof -
  obtain wbm where wbm: "files f m = Some wbm"
    using assms(1,2) by (cases "files f m") (auto simp: validar_conformidade_tool_def)
  obtain am dfm where pm: "pick_sheet wbm = Inr (am, dfm)"
    using assms(1,2) wbm by (cases "pick_sheet wbm") (auto simp: validar_conformidade_tool_def)
  let ?rep = "\<lparr>arquivo = g, aba_modelo = am,
                 faltantes = filter (\<lambda>c. c \<notin> set (columns df)) (columns dfm),
                 extras = filter (\<lambda>c. c \<notin> set (columns dfm)) (columns df),
                 issues_80_20 = issues_of pn tol df, negativos = negativos_of pn df\<rparr>"
  let ?tem = "\<lambda>f. (case ref of None \<Rightarrow> False
                 | Some p \<Rightarrow> (case files f p of None \<Rightarrow> False
                               | Some w \<Rightarrow> validacoes_name \<in> set (map fst w)))"
  let ?wb1 = "write_sheet validacoes_name (resumo ?rep (?tem f)) wb"
  have run1: "validar_conformidade_tool pn f g m ref tol =
      Inr (?rep, f\<lparr>files := (files f)(g \<mapsto> ?wb1)\<rparr>)"
    using validar_sem_reforco [OF assms(2) wbm pm assms(3,5), of pn ref tol] by (simp add: Let_def)
  have "(Inr (rep, f1) :: error + report \<times> fs) = Inr (?rep, f\<lparr>files := (files f)(g \<mapsto> ?wb1)\<rparr>)"
    using assms(1) [symmetric] run1 by (rule trans)
  then have rep: "rep = ?rep" and f1: "f1 = f\<lparr>files := (files f)(g \<mapsto> ?wb1)\<rparr>"
    by (simp_all only: sum.inject prod.inject)
  have g1: "files f1 g = Some ?wb1" using f1 by simp
  have p1: "pick_sheet ?wb1 = Inr (a, df)" by (rule pick_sheet_write [OF assms(3,4)])
  obtain wbm1 where wbm1: "files f1 m = Some wbm1" "pick_sheet wbm1 = Inr (am, dfm)"
  proof (cases "m = g")
    case True
    then have "wbm = wb" using wbm assms(2) by simp
    then have "(am, dfm) = (a, df)" using pm assms(3) by simp
    then show ?thesis using that [of ?wb1] True g1 p1 by simp
  next
    case False
    then show ?thesis using that [of wbm] wbm pm f1 by simp
  qed
  have tem: "?tem f1 = ?tem f"
  proof (cases ref)
    case None
    then show ?thesis by simp
  next
    case (Some p)
    show ?thesis
    proof (cases "p = g")
      case True
      then have "validacoes_name \<in> set (map fst wb)" using assms(6) Some by simp
      then show ?thesis using Some True assms(2) g1 write_sheet_names [of validacoes_name _ wb]
        by simp
    next
      case False
      then show ?thesis using Some f1 by simp
    qed
  qed
  have run2: "validar_conformidade_tool pn f1 g m ref tol =
      Inr (?rep, f1\<lparr>files := (files f1)(g \<mapsto>
             write_sheet validacoes_name (resumo ?rep (?tem f1)) ?wb1)\<rparr>)"
    using validar_sem_reforco [OF g1 wbm1 p1 assms(5), of pn ref tol] by (simp add: Let_def)
  have "write_sheet validacoes_name (resumo ?rep (?tem f1)) ?wb1 = ?wb1"
    by (simp only: tem write_sheet_idem)
  then have "f1\<lparr>files := (files f1)(g \<mapsto>
             write_sheet validacoes_name (resumo ?rep (?tem f1)) ?wb1)\<rparr> = f1"
    using f1 by simp
  then show ?thesis using run2 rep by simp
qed

lemma exemplo_validar_eval:
  "files (exemplo_validar_fs folha) ''VR.xlsx'' = Some [(''VR Mensal'', folha)]"
  "files (exemplo_validar_fs folha) ''modelo.xlsx''
     = Some [(''VR Mensal 05.2025'', \<lparr>columns = [''MATRICULA'', ''TOTAL''], rows = []\<rparr>)]"
  "pick_sheet [(''VR Mensal'', folha)] = Inr (''VR Mensal'', folha)"
  "pick_sheet [(''VR Mensal 05.2025'', \<lparr>columns = [''MATRICULA'', ''TOTAL''], rows = []\<rparr>)]
     = Inr (''VR Mensal 05.2025'', \<lparr>columns = [''MATRICULA'', ''TOTAL''], rows = []\<rparr>)"
  "''VR Mensal'' \<noteq> validacoes_name"
  by (simp_all add: exemplo_validar_fs_def pick_sheet_def validacoes_name_def
      lower_def lower_char_def char_of_def)

theorem validar_idempotente_witness:
  "\<exists>rep f1.
     validar_conformidade_tool (\<lambda>s. None) (exemplo_validar_fs folha_zero) ''VR.xlsx'' ''modelo.xlsx'' None (1/100)
       = Inr (rep, f1)
     \<and> files (exemplo_validar_fs folha_zero) ''VR.xlsx'' = Some [(''VR Mensal'', folha_zero)]
     \<and> pick_sheet [(''VR Mensal'', folha_zero)] = Inr (''VR Mensal'', folha_zero)
     \<and> ''VR Mensal'' \<noteq> validacoes_name
     \<and> list_all (\<lambda>c. c \<in> set (columns folha_zero)) cost_cols
     \<and> validar_conformidade_tool (\<lambda>s. None) f1 ''VR.xlsx'' ''modelo.xlsx'' None (1/100) = Inr (rep, f1)
     \<and> faltantes rep = []
     \<and> extras rep = [''Custo empresa'', ''Desconto profissional'']"
proof -
  note e = exemplo_validar_eval
  have cols: "list_all (\<lambda>c. c \<in> set (columns folha_zero)) cost_cols"
    by (simp add: folha_zero_def cost_cols_def)
  let ?V = "validar_conformidade_tool (\<lambda>s. None) (exemplo_validar_fs folha_zero) ''VR.xlsx'' ''modelo.xlsx'' None (1/100)"
  have "\<exists>rep f1. ?V = Inr (rep, f1) \<and> faltantes rep = []
      \<and> extras rep = [''Custo empresa'', ''Desconto profissional'']"
    unfolding validar_sem_reforco [OF e(1) e(2) e(4) e(3) cols] Let_def
    by (simp add: folha_zero_def)
  then obtain rep f1 where run: "?V = Inr (rep, f1)" and fa: "faltantes rep = []"
    and ex: "extras rep = [''Custo empresa'', ''Desconto profissional'']"
    by (elim exE conjE) (rule that; assumption)
  have r: "(None :: string option) = Some ''VR.xlsx'' \<Longrightarrow> validacoes_name \<in> set (map fst [(''VR Mensal'', folha_zero)])"
    by simp
  note th = validar_idempotente [OF run e(1) e(3) e(5) cols r]
  show ?thesis
    by (rule exI [of _ rep], rule exI [of _ f1]) (intro conjI run e(1) e(3) e(5) cols th fa ex)
qed

text \<open>
  The claim C7 as stated fails when the first run reinforces the workbook: the first run
  compares the columns before it writes the two cost columns, the second after, so the
  second run reports them as extra columns and the first does not.
\<close>

theorem validar_reforco_counterexample:
  "extras (fst (projr (validar_conformidade_tool (\<lambda>s. None) (exemplo_validar_fs folha_sem_custos)
       ''VR.xlsx'' ''modelo.xlsx'' None (1/100)))) = []
   \<and> extras (fst (projr (validar_conformidade_tool (\<lambda>s. None)
       (snd (projr (validar_conformidade_tool (\<lambda>s. None) (exemplo_validar_fs folha_sem_custos)
          ''VR.xlsx'' ''modelo.xlsx'' None (1/100))))
       ''VR.xlsx'' ''modelo.xlsx'' None (1/100)))) = [''Custo empresa'', ''Desconto profissional'']
   \<and> \<not> isl (validar_conformidade_tool (\<lambda>s. None) (exemplo_validar_fs folha_sem_custos)
       ''VR.xlsx'' ''modelo.xlsx'' None (1/100))
   \<and> \<not> isl (validar_conformidade_tool (\<lambda>s. None)
       (snd (projr (validar_conformidade_tool (\<lambda>s. None) (exemplo_validar_fs folha_sem_custos)
          ''VR.xlsx'' ''modelo.xlsx'' None (1/100))))
       ''VR.xlsx'' ''modelo.xlsx'' None (1/100))"
  by (simp add: validar_conformidade_tool_def exemplo_validar_fs_def folha_sem_custos_def
      pick_sheet_def read_sheet_def aplicar_80_20_wb_def aplicar_80_20_def set_col_def cost_cols_def
      validacoes_name_def lower_def lower_char_def char_of_def Let_def)

end
